theory Spec2Isabelle
  imports Complex_Main "HOL-Library.Sublist" "HOL-Library.Multiset"
begin

section \<open>Python values\<close>

text \<open>
  The job pipeline works on dictionaries whose values are dynamically typed. A field
  value is one of the values below. Strings are sequences of code points below 256.
  A float is modelled by the real number it denotes (no NaN, no infinity); Python
  compares an int with a float by their exact numeric values, and so does the model.
  A \<^verbatim>\<open>datetime\<close> held by a listing is naive and is its number of microseconds on
  the time line.
\<close>

datatype py_error = TypeError | AttributeError | KeyError | OverflowError | JobFetcherError

datatype pyval =
    PNone
  | PBool bool
  | PInt int
  | PFloat real
  | PStr string
  | PList "pyval list"
  | PDateTime int

type_synonym pydict = "string \<Rightarrow> pyval option"

type_synonym job = pydict

text \<open>\<^verbatim>\<open>d.get(k, default)\<close>\<close>

definition dget :: "pydict \<Rightarrow> string \<Rightarrow> pyval \<Rightarrow> pyval" where
  "dget d k dflt = (case d k of None \<Rightarrow> dflt | Some v \<Rightarrow> v)"

text \<open>Sequencing of computations that may raise.\<close>

definition ebind :: "py_error + 'a \<Rightarrow> ('a \<Rightarrow> py_error + 'b) \<Rightarrow> py_error + 'b" where
  "ebind m f = (case m of Inl e \<Rightarrow> Inl e | Inr x \<Rightarrow> f x)"

fun emap :: "('a \<Rightarrow> py_error + 'b) \<Rightarrow> 'a list \<Rightarrow> py_error + 'b list" where
  "emap f [] = Inr []"
| "emap f (x # xs) = ebind (f x) (\<lambda>y. ebind (emap f xs) (\<lambda>ys. Inr (y # ys)))"

text \<open>The numeric tower: \<^verbatim>\<open>bool\<close> is a subclass of \<^verbatim>\<open>int\<close>.\<close>

fun as_num :: "pyval \<Rightarrow> real option" where
  "as_num (PBool b) = Some (if b then 1 else 0)"
| "as_num (PInt n) = Some (of_int n)"
| "as_num (PFloat r) = Some r"
| "as_num _ = None"

text \<open>Truth value of an object, as \<^verbatim>\<open>if x\<close>, \<^verbatim>\<open>x and y\<close>, \<^verbatim>\<open>not x\<close> test it.\<close>

fun truthy :: "pyval \<Rightarrow> bool" where
  "truthy PNone = False"
| "truthy (PBool b) = b"
| "truthy (PInt n) = (n \<noteq> 0)"
| "truthy (PFloat r) = (r \<noteq> 0)"
| "truthy (PStr s) = (s \<noteq> [])"
| "truthy (PList xs) = (xs \<noteq> [])"
| "truthy (PDateTime t) = True"

text \<open>\<^verbatim>\<open>str.lower\<close> on code points below 256: A-Z and the Latin-1 capitals.\<close>

definition lower_char :: "char \<Rightarrow> char" where
  "lower_char c =
     (let n = (of_char c :: nat)
      in if (65 \<le> n \<and> n \<le> 90) \<or> (192 \<le> n \<and> n \<le> 222 \<and> n \<noteq> 215)
         then char_of (n + 32) else c)"

definition lower :: "string \<Rightarrow> string" where
  "lower s = map lower_char s"

text \<open>\<^verbatim>\<open>x.lower()\<close>: only a \<^verbatim>\<open>str\<close> has the method.\<close>

fun py_lower :: "pyval \<Rightarrow> py_error + string" where
  "py_lower (PStr s) = Inr (lower s)"
| "py_lower _ = Inl AttributeError"

text \<open>\<^verbatim>\<open>for x in v\<close>: a list yields its elements, a string its characters.\<close>

fun py_iter :: "pyval \<Rightarrow> py_error + pyval list" where
  "py_iter (PList xs) = Inr xs"
| "py_iter (PStr s) = Inr (map (\<lambda>c. PStr [c]) s)"
| "py_iter _ = Inl TypeError"

text \<open>\<^verbatim>\<open>[s.lower() for s in v]\<close>\<close>

definition lower_all :: "pyval \<Rightarrow> py_error + string list" where
  "lower_all v = ebind (py_iter v) (emap py_lower)"

text \<open>\<^verbatim>\<open>a in b\<close> on two strings: \<open>a\<close> occurs in \<open>b\<close> as a contiguous run.\<close>

definition str_in :: "string \<Rightarrow> string \<Rightarrow> bool" where
  "str_in a b = sublist a b"

text \<open>
  Equality \<^verbatim>\<open>==\<close> and the order comparisons. Numbers compare by value, strings by
  code point, lists lexicographically (the first pair of unequal elements decides, else
  the lengths), datetimes on the time line; every other pair raises TypeError under
  \<^verbatim>\<open><\<close>, \<^verbatim>\<open><=\<close>, \<^verbatim>\<open>>\<close>, \<^verbatim>\<open>>=\<close>.
\<close>

fun py_eq :: "pyval \<Rightarrow> pyval \<Rightarrow> bool"
  and py_eq_list :: "pyval list \<Rightarrow> pyval list \<Rightarrow> bool" where
  "py_eq (PList xs) (PList ys) = py_eq_list xs ys"
| "py_eq (PStr s) (PStr t) = (s = t)"
| "py_eq PNone PNone = True"
| "py_eq (PDateTime s) (PDateTime t) = (s = t)"
| "py_eq a b = (case (as_num a, as_num b) of (Some x, Some y) \<Rightarrow> x = y | _ \<Rightarrow> False)"
| "py_eq_list [] [] = True"
| "py_eq_list (x # xs) (y # ys) = (py_eq x y \<and> py_eq_list xs ys)"
| "py_eq_list _ _ = False"

datatype cmp3 = LT | EQ | GT

definition num_cmp :: "'a::linorder \<Rightarrow> 'a \<Rightarrow> cmp3" where
  "num_cmp x y = (if x < y then LT else if x = y then EQ else GT)"

fun str_cmp :: "string \<Rightarrow> string \<Rightarrow> cmp3" where
  "str_cmp [] [] = EQ"
| "str_cmp [] (y # ys) = LT"
| "str_cmp (x # xs) [] = GT"
| "str_cmp (x # xs) (y # ys) =
     (if (of_char x :: nat) < of_char y then LT
      else if (of_char y :: nat) < of_char x then GT
      else str_cmp xs ys)"

fun py_cmp :: "pyval \<Rightarrow> pyval \<Rightarrow> py_error + cmp3"
  and py_cmp_list :: "pyval list \<Rightarrow> pyval list \<Rightarrow> py_error + cmp3" where
  "py_cmp (PList xs) (PList ys) = py_cmp_list xs ys"
| "py_cmp (PStr s) (PStr t) = Inr (str_cmp s t)"
| "py_cmp (PDateTime s) (PDateTime t) = Inr (num_cmp s t)"
| "py_cmp a b =
     (case (as_num a, as_num b) of (Some x, Some y) \<Rightarrow> Inr (num_cmp x y) | _ \<Rightarrow> Inl TypeError)"
| "py_cmp_list [] [] = Inr EQ"
| "py_cmp_list [] (y # ys) = Inr LT"
| "py_cmp_list (x # xs) [] = Inr GT"
| "py_cmp_list (x # xs) (y # ys) = (if py_eq x y then py_cmp_list xs ys else py_cmp x y)"

definition py_lt :: "pyval \<Rightarrow> pyval \<Rightarrow> py_error + bool" where
  "py_lt a b = ebind (py_cmp a b) (\<lambda>c. Inr (c = LT))"

definition py_gt :: "pyval \<Rightarrow> pyval \<Rightarrow> py_error + bool" where
  "py_gt a b = ebind (py_cmp a b) (\<lambda>c. Inr (c = GT))"

definition py_le :: "pyval \<Rightarrow> pyval \<Rightarrow> py_error + bool" where
  "py_le a b = ebind (py_cmp a b) (\<lambda>c. Inr (c \<noteq> GT))"

definition py_ge :: "pyval \<Rightarrow> pyval \<Rightarrow> py_error + bool" where
  "py_ge a b = ebind (py_cmp a b) (\<lambda>c. Inr (c \<noteq> LT))"

text \<open>
  Hashing for \<^verbatim>\<open>set\<close> membership. Of the values above only a list is unhashable
  (TypeError); a dictionary would be too, and is not among them. Two hashable values
  are the same set element exactly when they are equal in Python, where numbers of
  different types compare by value (\<^verbatim>\<open>True == 1 == 1.0\<close>): the normal form below
  identifies exactly those.
\<close>

datatype hkey = HNone | HNum real | HStr string | HDateTime int

fun py_hash :: "pyval \<Rightarrow> py_error + hkey" where
  "py_hash PNone = Inr HNone"
| "py_hash (PBool b) = Inr (HNum (if b then 1 else 0))"
| "py_hash (PInt n) = Inr (HNum (of_int n))"
| "py_hash (PFloat r) = Inr (HNum r)"
| "py_hash (PStr s) = Inr (HStr s)"
| "py_hash (PList xs) = Inl TypeError"
| "py_hash (PDateTime t) = Inr (HDateTime t)"

section \<open>JobFetcher: state, normalization, requests\<close>

text \<open>
  \<^verbatim>\<open>self.session\<close> is \<open>None\<close> until \<^verbatim>\<open>__aenter__\<close> creates a client session;
  \<^verbatim>\<open>__aexit__\<close> closes the session and leaves the closed object in the field.
\<close>

datatype session_state = NoSession | OpenSession | ClosedSession

record fetcher =
  sources :: "string list"
  jobs :: "job list"
  session :: session_state

text \<open>
  An element of a source's answer is a mapping or it is not; only a mapping has
  \<^verbatim>\<open>.get\<close>. \<^verbatim>\<open>parse_job_listing\<close> reads the clock once
  (\<^verbatim>\<open>datetime.utcnow().isoformat()\<close>, the parameter \<open>utcnow\<close>).
\<close>

datatype raw_item = Mapping pydict | NotMapping

definition parse_job_listing :: "string \<Rightarrow> raw_item \<Rightarrow> py_error + job" where
  "parse_job_listing utcnow raw_data =
     (case raw_data of
        NotMapping \<Rightarrow> Inl AttributeError
      | Mapping d \<Rightarrow> Inr (Map.empty
          (''title'' \<mapsto> dget d ''title'' (PStr ''''),
           ''company'' \<mapsto> dget d ''company'' (PStr ''''),
           ''location'' \<mapsto> dget d ''location'' (PStr ''''),
           ''description'' \<mapsto> dget d ''description'' (PStr ''''),
           ''url'' \<mapsto> dget d ''url'' (PStr ''''),
           ''posted_date'' \<mapsto> dget d ''posted_date'' (PStr ''''),
           ''salary'' \<mapsto> dget d ''salary'' (PStr ''''),
           ''job_type'' \<mapsto> dget d ''job_type'' (PStr ''''),
           ''source'' \<mapsto> dget d ''source'' (PStr ''unknown''),
           ''fetched_at'' \<mapsto> PStr utcnow)))"

text \<open>
  The decoded body of a response: an array of items, an object, a string, or any other
  JSON value (null, a number, a boolean).
\<close>

datatype json = JArray "raw_item list" | JObject "(string \<times> json) list" | JString string | JOther

text \<open>\<^verbatim>\<open>data.get(k, default)\<close> on a decoded body: only an object has \<^verbatim>\<open>.get\<close>.\<close>

definition json_get :: "json \<Rightarrow> string \<Rightarrow> json \<Rightarrow> py_error + json" where
  "json_get data k dflt =
     (case data of
        JObject kvs \<Rightarrow> Inr (case map_of kvs k of None \<Rightarrow> dflt | Some v \<Rightarrow> v)
      | _ \<Rightarrow> Inl AttributeError)"

definition extract_jobs_from_response :: "json \<Rightarrow> string \<Rightarrow> py_error + json" where
  "extract_jobs_from_response data source =
     (if source = ''linkedin'' then json_get data ''elements'' (JArray [])
      else if source = ''indeed'' then json_get data ''results'' (JArray [])
      else if source = ''glassdoor'' then
        ebind (json_get data ''response'' (JObject [])) (\<lambda>r. json_get r ''jobListings'' (JArray []))
      else Inr (JArray []))"

text \<open>
  What one pass through the \<^verbatim>\<open>try\<close> block of \<^verbatim>\<open>_make_api_request\<close> meets on an open
  session: a response with its status and the result of \<^verbatim>\<open>await response.json()\<close>, an
  \<^verbatim>\<open>aiohttp.ClientError\<close>, or another exception.
\<close>

datatype json_result = JsonValue json | JsonClientError | JsonOtherError

datatype outcome = Response nat json_result | RaisesClientError | RaisesOther

text \<open>What a task does that the outside can see: requests sent and sleeps.\<close>

datatype event = HttpGet string "(string \<times> pyval) list" | Sleep nat

definition max_retries :: nat where
  "max_retries = 3"

definition retry_delay :: nat where
  "retry_delay = 1"

text \<open>
  The loop \<^verbatim>\<open>for attempt in range(max_retries)\<close>. \<open>resp attempt\<close> is what the attempt
  meets. Without a session the \<^verbatim>\<open>JobFetcherError\<close> raised in the \<^verbatim>\<open>try\<close> block is caught
  by \<^verbatim>\<open>except Exception\<close>; on a closed session \<^verbatim>\<open>session.get\<close> raises and is caught the
  same way.
\<close>

fun request_loop ::
  "(nat \<Rightarrow> outcome) \<Rightarrow> session_state \<Rightarrow> string \<Rightarrow> (string \<times> pyval) list \<Rightarrow> string \<Rightarrow>
   nat list \<Rightarrow> json \<times> event list" where
  "request_loop resp sess url params source [] = (JArray [], [])"
| "request_loop resp sess url params source (attempt # rest) =
     (if sess \<noteq> OpenSession then (JArray [], [])
      else
        (case resp attempt of
           Response status body \<Rightarrow>
             if status = 200 then
               (case body of
                  JsonValue data \<Rightarrow>
                    (case extract_jobs_from_response data source of
                       Inl e \<Rightarrow> (JArray [], [HttpGet url params])
                     | Inr found \<Rightarrow> (found, [HttpGet url params]))
                | JsonClientError \<Rightarrow>
                    if attempt < max_retries - 1 then
                      (let (found, evs) = request_loop resp sess url params source rest
                       in (found, HttpGet url params # Sleep retry_delay # evs))
                    else (JArray [], [HttpGet url params])
                | JsonOtherError \<Rightarrow> (JArray [], [HttpGet url params]))
             else if status = 429 then
               (let (found, evs) = request_loop resp sess url params source rest
                in (found, HttpGet url params # Sleep (retry_delay * (attempt + 1)) # evs))
             else (JArray [], [HttpGet url params])
         | RaisesClientError \<Rightarrow>
             if attempt < max_retries - 1 then
               (let (found, evs) = request_loop resp sess url params source rest
                in (found, HttpGet url params # Sleep retry_delay # evs))
             else (JArray [], [HttpGet url params])
         | RaisesOther \<Rightarrow> (JArray [], [HttpGet url params])))"

definition make_api_request ::
  "(nat \<Rightarrow> outcome) \<Rightarrow> session_state \<Rightarrow> string \<Rightarrow> (string \<times> pyval) list \<Rightarrow> string \<Rightarrow>
   json \<times> event list" where
  "make_api_request resp sess url params source =
     request_loop resp sess url params source [0..<max_retries]"

text \<open>\<^verbatim>\<open>for job in jobs\<close> over what \<^verbatim>\<open>_make_api_request\<close> returned.\<close>

definition json_iter :: "json \<Rightarrow> py_error + raw_item list" where
  "json_iter v =
     (case v of
        JArray items \<Rightarrow> Inr items
      | JObject kvs \<Rightarrow> Inr (map (\<lambda>k. NotMapping) (remdups (map fst kvs)))
      | JString s \<Rightarrow> Inr (map (\<lambda>c. NotMapping) s)
      | JOther \<Rightarrow> Inl TypeError)"

text \<open>The endpoint and the query parameters of each source.\<close>

definition source_url :: "string \<Rightarrow> string" where
  "source_url source =
     (if source = ''linkedin'' then ''https://api.linkedin.com/v2/jobs''
      else if source = ''indeed'' then ''https://api.indeed.com/ads/apisearch''
      else ''https://api.glassdoor.com/api/api.htm'')"

definition source_params :: "string \<Rightarrow> string \<Rightarrow> string \<Rightarrow> (string \<times> pyval) list" where
  "source_params source kw loc =
     (if source = ''linkedin'' then
        [(''keywords'', PStr kw), (''location'', PStr loc), (''count'', PInt 25)]
      else if source = ''indeed'' then
        [(''q'', PStr kw), (''l'', PStr loc), (''limit'', PInt 25), (''format'', PStr ''json'')]
      else
        [(''action'', PStr ''jobs-prog''), (''q'', PStr kw), (''l'', PStr loc), (''pagesize'', PInt 25)])"

text \<open>
  \<^verbatim>\<open>_fetch_linkedin\<close>, \<^verbatim>\<open>_fetch_indeed\<close> and \<^verbatim>\<open>_fetch_glassdoor\<close> are one function up to
  the endpoint: request, then \<^verbatim>\<open>[self.parse_job_listing(job) for job in jobs]\<close>, any
  exception re-raised as \<^verbatim>\<open>JobFetcherError\<close>. \<open>clock i\<close> is the clock at the \<open>i\<close>-th
  listing.
\<close>

fun parse_all :: "(nat \<Rightarrow> string) \<Rightarrow> nat \<Rightarrow> raw_item list \<Rightarrow> py_error + job list" where
  "parse_all clock i [] = Inr []"
| "parse_all clock i (item # rest) =
     ebind (parse_job_listing (clock i) item) (\<lambda>j.
     ebind (parse_all clock (Suc i) rest) (\<lambda>js. Inr (j # js)))"

definition fetch_source ::
  "(nat \<Rightarrow> string) \<Rightarrow> (nat \<Rightarrow> outcome) \<Rightarrow> session_state \<Rightarrow> string \<Rightarrow> string \<Rightarrow> string \<Rightarrow>
   (py_error + job list) \<times> event list" where
  "fetch_source clock resp sess source kw loc =
     (let (found, evs) =
            make_api_request resp sess (source_url source) (source_params source kw loc) source
      in ((case ebind (json_iter found) (parse_all clock 0) of
             Inl e \<Rightarrow> Inl JobFetcherError
           | Inr js \<Rightarrow> Inr js),
          evs))"

text \<open>
  The world of one run: for the source at position \<open>i\<close> of \<^verbatim>\<open>self.sources\<close>, what each
  attempt meets and what the clock shows. The tasks run concurrently under
  \<^verbatim>\<open>asyncio.gather\<close>; a task's answer depends on its own responses only, and
  \<^verbatim>\<open>gather\<close> returns the results in task order, so the run is given by one result and
  one event trace per task.
\<close>

record world =
  responses :: "nat \<Rightarrow> nat \<Rightarrow> outcome"
  clocks :: "nat \<Rightarrow> nat \<Rightarrow> string"

definition known_source :: "string \<Rightarrow> bool" where
  "known_source source = (source = ''linkedin'' \<or> source = ''indeed'' \<or> source = ''glassdoor'')"

fun run_tasks ::
  "world \<Rightarrow> session_state \<Rightarrow> string \<Rightarrow> string \<Rightarrow> nat \<Rightarrow> string list \<Rightarrow>
   ((py_error + job list) \<times> event list) list" where
  "run_tasks w sess kw loc i [] = []"
| "run_tasks w sess kw loc i (source # rest) =
     (if known_source source
      then fetch_source (clocks w i) (responses w i) sess source kw loc #
           run_tasks w sess kw loc (Suc i) rest
      else run_tasks w sess kw loc (Suc i) rest)"

text \<open>\<^verbatim>\<open>all_jobs.extend(result)\<close> for every result that is not an exception.\<close>

fun collect :: "((py_error + job list) \<times> event list) list \<Rightarrow> job list" where
  "collect [] = []"
| "collect ((Inl e, evs) # rs) = collect rs"
| "collect ((Inr js, evs) # rs) = js @ collect rs"

definition fetch_all_sources ::
  "world \<Rightarrow> fetcher \<Rightarrow> string \<Rightarrow> string \<Rightarrow> job list \<times> event list list \<times> fetcher" where
  "fetch_all_sources w self kw loc =
     (let results = run_tasks w (session self) kw loc 0 (sources self);
          all_jobs = collect results
      in (all_jobs, map snd results, self\<lparr>jobs := all_jobs\<rparr>))"

text \<open>
  \<^verbatim>\<open>fetch_jobs\<close>: without a session the run happens inside \<^verbatim>\<open>async with self\<close>, which
  opens a session before and closes it after.
\<close>

definition fetch_jobs ::
  "world \<Rightarrow> fetcher \<Rightarrow> string \<Rightarrow> string \<Rightarrow> job list \<times> event list list \<times> fetcher" where
  "fetch_jobs w self kw loc =
     (if session self = NoSession then
        (let (all_jobs, traces, self') = fetch_all_sources w (self\<lparr>session := OpenSession\<rparr>) kw loc
         in (all_jobs, traces, self'\<lparr>session := ClosedSession\<rparr>))
      else fetch_all_sources w self kw loc)"

section \<open>JobFetcher: deduplication\<close>

text \<open>
  The key of \<^verbatim>\<open>deduplicate_jobs\<close>:
  \<^verbatim>\<open>(job.get("title", ""), job.get("company", ""), job.get("location", ""))\<close>,
  as the set \<^verbatim>\<open>seen\<close> holds it.
\<close>

definition job_key :: "job \<Rightarrow> py_error + (hkey \<times> hkey \<times> hkey)" where
  "job_key job =
     ebind (py_hash (dget job ''title'' (PStr ''''))) (\<lambda>t.
     ebind (py_hash (dget job ''company'' (PStr ''''))) (\<lambda>c.
     ebind (py_hash (dget job ''location'' (PStr ''''))) (\<lambda>l.
     Inr (t, c, l))))"

text \<open>The loop of \<^verbatim>\<open>deduplicate_jobs\<close> over \<^verbatim>\<open>self.jobs\<close>, with its two accumulators.\<close>

fun dedup_loop ::
  "(hkey \<times> hkey \<times> hkey) set \<Rightarrow> job list \<Rightarrow> job list \<Rightarrow> py_error + job list" where
  "dedup_loop seen unique_jobs [] = Inr unique_jobs"
| "dedup_loop seen unique_jobs (job # rest) =
     ebind (job_key job) (\<lambda>key.
       if key \<notin> seen then dedup_loop (insert key seen) (unique_jobs @ [job]) rest
       else dedup_loop seen unique_jobs rest)"

text \<open>
  \<^verbatim>\<open>deduplicate_jobs\<close> returns the list and stores it in \<^verbatim>\<open>self.jobs\<close>; when the loop
  raises, \<^verbatim>\<open>self.jobs\<close> has not been assigned.
\<close>

definition deduplicate_jobs :: "fetcher \<Rightarrow> py_error + (job list \<times> fetcher)" where
  "deduplicate_jobs self =
     ebind (dedup_loop {} [] (jobs self)) (\<lambda>unique_jobs.
       Inr (unique_jobs, self\<lparr>jobs := unique_jobs\<rparr>))"

section \<open>JobRanker\<close>

text \<open>
  \<^verbatim>\<open>_compute_score\<close>, statement by statement. The score is a float built from
  \<open>0.0\<close> by adding \<open>skill_matches * 5.0\<close>, \<open>10.0\<close>, \<open>7.5\<close>, \<open>8.0\<close> and \<open>3.0\<close>; all
  these sums are multiples of one half and are exact in binary floating point (for any
  list of skills a machine can hold), so the real number is the float.
\<close>

definition compute_score :: "pydict \<Rightarrow> job \<Rightarrow> py_error + real" where
  "compute_score user_profile job =
     ebind (lower_all (dget job ''skills'' (PList []))) (\<lambda>job_skills.
     ebind (lower_all (dget user_profile ''skills'' (PList []))) (\<lambda>user_skills.
     let skill_matches = card (set job_skills \<inter> set user_skills);
         score1 = 0 + real skill_matches * 5
     in
     ebind (lower_all (dget user_profile ''locations'' (PList []))) (\<lambda>preferred_locations.
     ebind (py_lower (dget job ''location'' (PStr ''''))) (\<lambda>job_location.
     let score2 = (if list_ex (\<lambda>loc. str_in loc job_location) preferred_locations
                   then score1 + 10 else score1);
         min_salary = dget user_profile ''min_salary'' PNone;
         job_salary = dget job ''salary'' PNone
     in
     ebind (if truthy min_salary \<and> truthy job_salary then py_ge job_salary min_salary
            else Inr False) (\<lambda>salary_boost.
     let score3 = (if salary_boost then score2 + 7.5 else score2);
         remote_pref = dget user_profile ''remote_only'' (PBool False);
         score4 = (if truthy remote_pref \<and>
                      (truthy (dget job ''is_remote'' (PBool False)) \<or> str_in ''remote'' job_location)
                   then score3 + 8 else score3);
         exp_years = dget user_profile ''experience_years'' PNone;
         job_exp = dget job ''experience_years'' PNone
     in
     ebind (if truthy job_exp \<and> truthy exp_years then py_le job_exp exp_years
            else Inr False) (\<lambda>exp_match.
     Inr (if exp_match then score4 + 3 else score4)))))))"

text \<open>
  The loop \<^verbatim>\<open>for job in jobs: job['rank_score'] = self._compute_score(job)\<close> writes
  into the caller's dictionaries. The model returns the listings as they are after the
  loop, in input order.
\<close>

fun score_loop :: "pydict \<Rightarrow> job list \<Rightarrow> py_error + job list" where
  "score_loop user_profile [] = Inr []"
| "score_loop user_profile (job # rest) =
     ebind (compute_score user_profile job) (\<lambda>s.
     ebind (score_loop user_profile rest) (\<lambda>rest'.
     Inr (job(''rank_score'' \<mapsto> PFloat s) # rest')))"

text \<open>
  The sort key \<^verbatim>\<open>lambda j: j['rank_score']\<close>. After the loop every listing holds a
  float there; the key of anything else is never taken.
\<close>

definition rank_score :: "job \<Rightarrow> real" where
  "rank_score j = (case j ''rank_score'' of Some (PFloat s) \<Rightarrow> s | _ \<Rightarrow> 0)"

text \<open>
  \<^verbatim>\<open>sorted(xs, key=k, reverse=True)\<close> on numeric keys: Python's sort is stable, and
  with \<^verbatim>\<open>reverse=True\<close> elements with equal keys still keep their original order.
  An element is placed before the first later element whose key is not greater.
\<close>

fun insert_desc :: "('a \<Rightarrow> real) \<Rightarrow> 'a \<Rightarrow> 'a list \<Rightarrow> 'a list" where
  "insert_desc k x [] = [x]"
| "insert_desc k x (y # ys) = (if k y \<le> k x then x # y # ys else y # insert_desc k x ys)"

definition sorted_reverse :: "('a \<Rightarrow> real) \<Rightarrow> 'a list \<Rightarrow> 'a list" where
  "sorted_reverse k xs = foldr (insert_desc k) xs []"

text \<open>
  \<^verbatim>\<open>rank_jobs\<close> returns the sorted list; the first component is the caller's list of
  listings after the call.
\<close>

definition rank_jobs :: "pydict \<Rightarrow> job list \<Rightarrow> py_error + (job list \<times> job list)" where
  "rank_jobs user_profile js =
     ebind (score_loop user_profile js) (\<lambda>js'.
     Inr (js', sorted_reverse rank_score js'))"

section \<open>JobFilter\<close>

text \<open>
  The dataclass \<^verbatim>\<open>FilterCriteria\<close> with its declared field types; \<open>None\<close> is the
  default of every optional field.
\<close>

record filter_criteria =
  required_skills :: "string list option"
  preferred_skills :: "string list option"
  locations :: "string list option"
  remote_only :: bool
  min_salary :: "real option"
  max_salary :: "real option"
  experience_min :: "int option"
  experience_max :: "int option"
  job_types :: "string list option"
  company_blacklist :: "string list option"
  company_whitelist :: "string list option"
  posted_within_days :: "int option"
  keywords' :: "string list option"
  exclude_keywords :: "string list option"

text \<open>\<^verbatim>\<open>FilterCriteria()\<close>: every field at its declared default.\<close>

definition default_criteria :: filter_criteria where
  "default_criteria =
     \<lparr>required_skills = None, preferred_skills = None, locations = None, remote_only = False,
      min_salary = None, max_salary = None, experience_min = None, experience_max = None,
      job_types = None, company_blacklist = None, company_whitelist = None,
      posted_within_days = None, keywords' = None, exclude_keywords = None\<rparr>"

record job_filter =
  criteria :: filter_criteria
  filtered_count :: nat
  total_processed :: nat

text \<open>
  What \<^verbatim>\<open>_check_posting_date\<close> takes from the \<^verbatim>\<open>datetime\<close> library: the clock
  \<^verbatim>\<open>datetime.now()\<close>, which is naive (without a time zone), and the parser
  \<^verbatim>\<open>datetime.fromisoformat\<close>: \<open>None\<close> where it raises ValueError, a naive
  \<^verbatim>\<open>datetime\<close> for a string without a UTC offset, an aware one for a string with an
  offset. Time is counted in microseconds from \<^verbatim>\<open>datetime.min\<close>.
\<close>

datatype parsed_datetime = Naive int | Aware int

record clock_env =
  now :: int
  fromisoformat :: "string \<Rightarrow> parsed_datetime option"

text \<open>Truth value of an optional list, and of an optional number.\<close>

definition list_set :: "string list option \<Rightarrow> bool" where
  "list_set v = (case v of None \<Rightarrow> False | Some xs \<Rightarrow> xs \<noteq> [])"

definition the_list :: "string list option \<Rightarrow> string list" where
  "the_list v = (case v of None \<Rightarrow> [] | Some xs \<Rightarrow> xs)"

fun skills_loop :: "string list \<Rightarrow> pyval \<Rightarrow> string \<Rightarrow> py_error + bool" where
  "skills_loop [] job_skills job_description = Inr True"
| "skills_loop (required_skill # rest) job_skills job_description =
     (let skill_lower = lower required_skill in
      ebind (lower_all job_skills) (\<lambda>skills_lower.
        if skill_lower \<notin> set skills_lower \<and> \<not> str_in skill_lower job_description
        then Inr False
        else skills_loop rest job_skills job_description))"

definition check_required_skills :: "filter_criteria \<Rightarrow> job \<Rightarrow> py_error + bool" where
  "check_required_skills c job =
     (if \<not> list_set (required_skills c) then Inr True
      else
        let v = dget job ''skills'' (PList []);
            job_skills = (if truthy v then v else PList [])
        in ebind (py_lower (dget job ''description'' (PStr ''''))) (\<lambda>job_description.
           skills_loop (the_list (required_skills c)) job_skills job_description))"

definition check_location :: "filter_criteria \<Rightarrow> job \<Rightarrow> py_error + bool" where
  "check_location c job =
     (if remote_only c then
        (if truthy (dget job ''is_remote'' (PBool False)) then Inr True
         else ebind (py_lower (dget job ''location'' (PStr ''''))) (\<lambda>l. Inr (str_in ''remote'' l)))
      else if \<not> list_set (locations c) then Inr True
      else ebind (py_lower (dget job ''location'' (PStr ''''))) (\<lambda>job_location.
             Inr (list_ex (\<lambda>location. str_in (lower location) job_location)
                    (the_list (locations c)))))"

text \<open>
  \<^verbatim>\<open>job.get('salary')\<close> is \<open>None\<close> for a missing key. A bound is applied when it is
  set and not zero (\<^verbatim>\<open>self.criteria.min_salary and ...\<close>).
\<close>

definition check_salary :: "filter_criteria \<Rightarrow> job \<Rightarrow> py_error + bool" where
  "check_salary c job =
     (let job_salary = dget job ''salary'' PNone in
      if job_salary = PNone then Inr True
      else
        ebind (case min_salary c of None \<Rightarrow> Inr False
               | Some m \<Rightarrow> if m \<noteq> 0 then py_lt job_salary (PFloat m) else Inr False) (\<lambda>below.
        if below then Inr False
        else
          ebind (case max_salary c of None \<Rightarrow> Inr False
                 | Some m \<Rightarrow> if m \<noteq> 0 then py_gt job_salary (PFloat m) else Inr False) (\<lambda>above.
          if above then Inr False else Inr True)))"

definition check_experience :: "filter_criteria \<Rightarrow> job \<Rightarrow> py_error + bool" where
  "check_experience c job =
     (let job_experience = dget job ''experience_years'' PNone in
      if job_experience = PNone then Inr True
      else
        ebind (case experience_min c of None \<Rightarrow> Inr False
               | Some m \<Rightarrow> if m \<noteq> 0 then py_lt job_experience (PInt m) else Inr False) (\<lambda>below.
        if below then Inr False
        else
          ebind (case experience_max c of None \<Rightarrow> Inr False
                 | Some m \<Rightarrow> if m \<noteq> 0 then py_gt job_experience (PInt m) else Inr False) (\<lambda>above.
          if above then Inr False else Inr True)))"

definition check_job_type :: "filter_criteria \<Rightarrow> job \<Rightarrow> py_error + bool" where
  "check_job_type c job =
     (if \<not> list_set (job_types c) then Inr True
      else ebind (py_lower (dget job ''job_type'' (PStr ''''))) (\<lambda>job_type.
             Inr (list_ex (\<lambda>jt. str_in (lower jt) job_type) (the_list (job_types c)))))"

definition check_company :: "filter_criteria \<Rightarrow> job \<Rightarrow> py_error + bool" where
  "check_company c job =
     ebind (py_lower (dget job ''company'' (PStr ''''))) (\<lambda>company.
       if list_set (company_blacklist c) \<and>
          list_ex (\<lambda>blocked. str_in (lower blocked) company) (the_list (company_blacklist c))
       then Inr False
       else if list_set (company_whitelist c) \<and>
          \<not> list_ex (\<lambda>allowed. str_in (lower allowed) company) (the_list (company_whitelist c))
       then Inr False
       else Inr True)"

text \<open>
  \<^verbatim>\<open>timedelta(days=d)\<close> raises OverflowError beyond 999999999 days, and so does a
  \<^verbatim>\<open>datetime\<close> outside the years 1 to 9999 (3652059 days).
\<close>

definition day_us :: int where
  "day_us = 86400000000"

definition cutoff_date :: "clock_env \<Rightarrow> int \<Rightarrow> py_error + int" where
  "cutoff_date env d =
     (if \<bar>d\<bar> > 999999999 then Inl OverflowError
      else let t = now env - d * day_us
           in if t < 0 \<or> 3652059 * day_us \<le> t then Inl OverflowError else Inr t)"

text \<open>
  Comparing an aware \<^verbatim>\<open>datetime\<close> with the naive cutoff raises TypeError; the cutoff
  is computed before the comparison.
\<close>

definition check_posting_date :: "clock_env \<Rightarrow> filter_criteria \<Rightarrow> job \<Rightarrow> py_error + bool" where
  "check_posting_date env c job =
     (case posted_within_days c of
        None \<Rightarrow> Inr True
      | Some d \<Rightarrow>
          if d = 0 then Inr True
          else
            let posted_date = dget job ''posted_date'' PNone in
            if \<not> truthy posted_date then Inr True
            else
              (case posted_date of
                 PStr s \<Rightarrow>
                   (case fromisoformat env s of
                      None \<Rightarrow> Inr True
                    | Some (Naive t) \<Rightarrow>
                        ebind (cutoff_date env d) (\<lambda>cutoff. py_ge (PDateTime t) (PDateTime cutoff))
                    | Some (Aware t) \<Rightarrow>
                        ebind (cutoff_date env d) (\<lambda>cutoff. Inl TypeError))
               | _ \<Rightarrow> ebind (cutoff_date env d) (\<lambda>cutoff. py_ge posted_date (PDateTime cutoff))))"

definition check_keywords :: "filter_criteria \<Rightarrow> job \<Rightarrow> py_error + bool" where
  "check_keywords c job =
     ebind (py_lower (dget job ''description'' (PStr ''''))) (\<lambda>description.
     ebind (py_lower (dget job ''title'' (PStr ''''))) (\<lambda>title.
     let combined_text = title @ '' '' @ description in
     if list_set (keywords' c) \<and>
        \<not> list_ex (\<lambda>keyword. str_in (lower keyword) combined_text) (the_list (keywords' c))
     then Inr False
     else if list_set (exclude_keywords c) \<and>
        list_ex (\<lambda>keyword. str_in (lower keyword) combined_text) (the_list (exclude_keywords c))
     then Inr False
     else Inr True))"

text \<open>\<^verbatim>\<open>if not check: return False\<close>, then the rest.\<close>

definition and_then :: "py_error + bool \<Rightarrow> py_error + bool \<Rightarrow> py_error + bool" where
  "and_then m rest = ebind m (\<lambda>ok. if \<not> ok then Inr False else rest)"

definition meets_criteria :: "clock_env \<Rightarrow> filter_criteria \<Rightarrow> job \<Rightarrow> py_error + bool" where
  "meets_criteria env c job =
     and_then (check_required_skills c job)
    (and_then (check_location c job)
    (and_then (check_salary c job)
    (and_then (check_experience c job)
    (and_then (check_job_type c job)
    (and_then (check_company c job)
    (and_then (check_posting_date env c job)
    (and_then (check_keywords c job)
    (Inr True))))))))"

text \<open>The loop of \<^verbatim>\<open>filter_jobs\<close>, appending to \<^verbatim>\<open>filtered_jobs\<close>.\<close>

fun filter_loop ::
  "clock_env \<Rightarrow> filter_criteria \<Rightarrow> job list \<Rightarrow> job list \<Rightarrow> py_error + job list" where
  "filter_loop env c filtered_jobs [] = Inr filtered_jobs"
| "filter_loop env c filtered_jobs (job # rest) =
     ebind (meets_criteria env c job) (\<lambda>ok.
       if ok then filter_loop env c (filtered_jobs @ [job]) rest
       else filter_loop env c filtered_jobs rest)"

text \<open>
  \<^verbatim>\<open>filter_jobs\<close> reads the listings through \<^verbatim>\<open>job.get\<close> only and assigns to the two
  counters of the filter. It returns the caller's listings after the call (first
  component), the filtered list and the filter.
\<close>

definition filter_jobs ::
  "clock_env \<Rightarrow> job_filter \<Rightarrow> job list \<Rightarrow> py_error + (job list \<times> job list \<times> job_filter)" where
  "filter_jobs env self js =
     (let self1 = self\<lparr>total_processed := length js\<rparr> in
      ebind (filter_loop env (criteria self1) [] js) (\<lambda>filtered_jobs.
      Inr (js, filtered_jobs, self1\<lparr>filtered_count := length filtered_jobs\<rparr>)))"

section \<open>Terms of the specification, and reference functions\<close>

text \<open>
  The identity key in the specification's words:
  (lowercase(trim(title)), lowercase(trim(company)), lowercase(trim(location))),
  on the text of the three fields (the empty string when a field is missing).
\<close>

definition is_space :: "char \<Rightarrow> bool" where
  "is_space c = (c \<in> set [CHR '' '', CHR 0x09, CHR 0x0A, CHR 0x0B, CHR 0x0C, CHR 0x0D])"

definition trim :: "string \<Rightarrow> string" where
  "trim s = rev (dropWhile is_space (rev (dropWhile is_space s)))"

definition text_field :: "job \<Rightarrow> string \<Rightarrow> string" where
  "text_field job k = (case job k of Some (PStr s) \<Rightarrow> s | _ \<Rightarrow> '''')"

definition spec_identity_key :: "job \<Rightarrow> string \<times> string \<times> string" where
  "spec_identity_key job =
     (lower (trim (text_field job ''title'')),
      lower (trim (text_field job ''company'')),
      lower (trim (text_field job ''location'')))"

text \<open>
  Keeping the first element of each key, given the keys already seen: what the loop of
  \<^verbatim>\<open>deduplicate_jobs\<close> computes when every key is hashable.
\<close>

fun first_occ :: "'k set \<Rightarrow> ('a \<Rightarrow> 'k) \<Rightarrow> 'a list \<Rightarrow> 'a list" where
  "first_occ seen f [] = []"
| "first_occ seen f (x # xs) =
     (if f x \<in> seen then first_occ seen f xs else x # first_occ (insert (f x) seen) f xs)"

definition the_key :: "job \<Rightarrow> hkey \<times> hkey \<times> hkey" where
  "the_key j = (case job_key j of Inr k \<Rightarrow> k | Inl e \<Rightarrow> (HNone, HNone, HNone))"

text \<open>
  The additive score. The texts of a list of strings; a number is set when it is there
  and, unless \<open>zero_is_set\<close>, is not zero. With \<open>zero_is_set\<close> this is the score in
  the words of the specification (a value of 0 counts as present), without it a value
  of 0 counts as missing.
\<close>

definition strs_of :: "pyval \<Rightarrow> string list" where
  "strs_of v =
     (case v of PList xs \<Rightarrow> concat (map (\<lambda>x. case x of PStr s \<Rightarrow> [s] | _ \<Rightarrow> []) xs) | _ \<Rightarrow> [])"

definition is_set :: "bool \<Rightarrow> pyval \<Rightarrow> bool" where
  "is_set zero_is_set v =
     (case as_num v of None \<Rightarrow> False | Some x \<Rightarrow> zero_is_set \<or> x \<noteq> 0)"

definition num_of :: "pyval \<Rightarrow> real" where
  "num_of v = (case as_num v of None \<Rightarrow> 0 | Some x \<Rightarrow> x)"

definition additive_score :: "bool \<Rightarrow> pydict \<Rightarrow> job \<Rightarrow> real" where
  "additive_score zero_is_set profile listing =
     5 * real (card (set (map lower (strs_of (dget listing ''skills'' (PList []))))
                   \<inter> set (map lower (strs_of (dget profile ''skills'' (PList []))))))
   + (if list_ex (\<lambda>loc. str_in (lower loc) (lower (text_field listing ''location'')))
           (strs_of (dget profile ''locations'' (PList [])))
      then 10 else 0)
   + (if is_set zero_is_set (dget profile ''min_salary'' PNone)
         \<and> is_set zero_is_set (dget listing ''salary'' PNone)
         \<and> num_of (dget profile ''min_salary'' PNone) \<le> num_of (dget listing ''salary'' PNone)
      then 7.5 else 0)
   + (if truthy (dget profile ''remote_only'' (PBool False))
         \<and> (truthy (dget listing ''is_remote'' (PBool False))
              \<or> str_in ''remote'' (lower (text_field listing ''location'')))
      then 8 else 0)
   + (if is_set zero_is_set (dget listing ''experience_years'' PNone)
         \<and> is_set zero_is_set (dget profile ''experience_years'' PNone)
         \<and> num_of (dget listing ''experience_years'' PNone)
              \<le> num_of (dget profile ''experience_years'' PNone)
      then 3 else 0)"

text \<open>
  Listings and profiles with the field types of the data model: skills and locations are
  lists of strings, the location is text, the numeric fields hold a number or \<open>None\<close>
  (a missing key reads as its default).
\<close>

definition str_list :: "pyval \<Rightarrow> bool" where
  "str_list v =
     (case v of PList xs \<Rightarrow> list_all (\<lambda>x. case x of PStr s \<Rightarrow> True | _ \<Rightarrow> False) xs | _ \<Rightarrow> False)"

definition is_text :: "pyval \<Rightarrow> bool" where
  "is_text v = (case v of PStr s \<Rightarrow> True | _ \<Rightarrow> False)"

definition num_or_none :: "pyval \<Rightarrow> bool" where
  "num_or_none v = (v = PNone \<or> (case as_num v of None \<Rightarrow> False | Some x \<Rightarrow> True))"

definition typed_listing :: "job \<Rightarrow> bool" where
  "typed_listing j =
     (str_list (dget j ''skills'' (PList []))
      \<and> is_text (dget j ''location'' (PStr ''''))
      \<and> num_or_none (dget j ''salary'' PNone)
      \<and> num_or_none (dget j ''experience_years'' PNone))"

definition typed_profile :: "pydict \<Rightarrow> bool" where
  "typed_profile p =
     (str_list (dget p ''skills'' (PList []))
      \<and> str_list (dget p ''locations'' (PList []))
      \<and> num_or_none (dget p ''min_salary'' PNone)
      \<and> num_or_none (dget p ''experience_years'' PNone))"

text \<open>Reading one key of a listing that a computation returned.\<close>

definition listing_field :: "py_error + job \<Rightarrow> string \<Rightarrow> py_error + pyval option" where
  "listing_field r k = ebind r (\<lambda>j. Inr (j k))"



text \<open>
  A listing whose title, company and location are text, as the data model has them (a
  missing field reads as the empty string). Text is hashable, so the key of such a
  listing can be put into the set \<^verbatim>\<open>seen\<close>.
\<close>

definition text_keyed :: "job \<Rightarrow> bool" where
  "text_keyed j =
     (is_text (dget j ''title'' (PStr ''''))
      \<and> is_text (dget j ''company'' (PStr ''''))
      \<and> is_text (dget j ''location'' (PStr '''')))"

section \<open>Deduplication\<close>

lemma the_key_eq: "job_key j = Inr k \<Longrightarrow> the_key j = k"
  by (simp add: the_key_def)

lemma dedup_loop_hashable:
  "dedup_loop seen u rest = Inr out \<Longrightarrow> j \<in> set rest \<Longrightarrow> \<exists>k. job_key j = Inr k"
proof (induction rest arbitrary: seen u)
  case Nil
  then show ?case by simp
next
  case (Cons a rest)
  from Cons.prems(1) obtain ka where ka: "job_key a = Inr ka"
    by (cases "job_key a") (auto simp: ebind_def)
  show ?case
  proof (cases "j = a")
    case True
    with ka show ?thesis by blast
  next
    case False
    with Cons.prems(2) have "j \<in> set rest" by simp
    moreover from Cons.prems(1) ka obtain s' u' where "dedup_loop s' u' rest = Inr out"
      by (auto simp: ebind_def split: if_splits)
    ultimately show ?thesis using Cons.IH by blast
  qed
qed

lemma dedup_loop_first_occ:
  "\<forall>j\<in>set rest. \<exists>k. job_key j = Inr k \<Longrightarrow>
     dedup_loop seen u rest = Inr (u @ first_occ seen the_key rest)"
proof (induction rest arbitrary: seen u)
  case Nil
  then show ?case by simp
next
  case (Cons a rest)
  then obtain ka where ka: "job_key a = Inr ka" by auto
  then have "the_key a = ka" by (rule the_key_eq)
  with ka Cons show ?case by (simp add: ebind_def)
qed

lemma first_occ_subseq: "subseq (first_occ seen f xs) xs"
  by (induction xs arbitrary: seen) auto

lemma first_occ_set: "set (first_occ seen f xs) \<subseteq> set xs"
  by (induction xs arbitrary: seen) auto

lemma first_occ_fresh: "x \<in> set (first_occ seen f xs) \<Longrightarrow> f x \<notin> seen"
  by (induction xs arbitrary: seen) (auto split: if_splits)

lemma first_occ_distinct: "distinct (map f (first_occ seen f xs))"
  by (induction xs arbitrary: seen) (auto dest: first_occ_fresh)

lemma first_occ_find:
  "find (\<lambda>x. f x = k) (first_occ seen f xs) =
     (if k \<in> seen then None else find (\<lambda>x. f x = k) xs)"
  by (induction xs arbitrary: seen) auto

lemma first_occ_fixed:
  "distinct (map f ys) \<Longrightarrow> f ` set ys \<inter> seen = {} \<Longrightarrow> first_occ seen f ys = ys"
  by (induction ys arbitrary: seen) auto

lemma first_occ_idem: "first_occ {} f (first_occ {} f xs) = first_occ {} f xs"
  by (rule first_occ_fixed) (auto simp: first_occ_distinct)

text \<open>What a successful run of \<^verbatim>\<open>deduplicate_jobs\<close> returns, in one equation.\<close>

lemma deduplicate_jobs_result:
  assumes "deduplicate_jobs self = Inr (out, self')"
  shows "out = first_occ {} the_key (jobs self)"
    and "self' = self\<lparr>jobs := out\<rparr>"
    and "\<forall>j\<in>set (jobs self). job_key j = Inr (the_key j)"
proof -
  from assms obtain u where u: "dedup_loop {} [] (jobs self) = Inr u"
    and o: "out = u" "self' = self\<lparr>jobs := u\<rparr>"
    by (cases "dedup_loop {} [] (jobs self)") (auto simp: deduplicate_jobs_def ebind_def)
  have h: "\<forall>j\<in>set (jobs self). \<exists>k. job_key j = Inr k"
    using dedup_loop_hashable[OF u] by blast
  from dedup_loop_first_occ[OF h, of "{}" "[]"] u o
  show "out = first_occ {} the_key (jobs self)" by simp
  from o show "self' = self\<lparr>jobs := out\<rparr>" by simp
  show "\<forall>j\<in>set (jobs self). job_key j = Inr (the_key j)"
  proof
    fix j assume "j \<in> set (jobs self)"
    with h obtain k where "job_key j = Inr k" by blast
    then show "job_key j = Inr (the_key j)" by (simp add: the_key_def)
  qed
qed

lemma map_job_key:
  "\<forall>j\<in>set xs. job_key j = Inr (the_key j) \<Longrightarrow> map job_key xs = map (Inr \<circ> the_key) xs"
  by simp

lemma find_job_key:
  "\<forall>j\<in>set xs. job_key j = Inr (the_key j) \<Longrightarrow>
   find (\<lambda>j. job_key j = k) xs =
     (case k of Inl e \<Rightarrow> None | Inr k' \<Rightarrow> find (\<lambda>j. the_key j = k') xs)"
  by (induction xs) (auto split: sum.splits)

lemma deduplicate_jobs_total:
  assumes "\<forall>j\<in>set (jobs self). \<exists>k. job_key j = Inr k"
  shows "deduplicate_jobs self =
           Inr (first_occ {} the_key (jobs self), self\<lparr>jobs := first_occ {} the_key (jobs self)\<rparr>)"
  using dedup_loop_first_occ[OF assms, of "{}" "[]"]
  by (simp add: deduplicate_jobs_def ebind_def)

lemma py_hash_text: "is_text v \<Longrightarrow> \<exists>k. py_hash v = Inr k"
  by (cases v) (auto simp: is_text_def)

lemma job_key_text: "text_keyed j \<Longrightarrow> \<exists>k. job_key j = Inr k"
proof -
  assume "text_keyed j"
  then obtain t c l where "py_hash (dget j ''title'' (PStr '''')) = Inr t"
    "py_hash (dget j ''company'' (PStr '''')) = Inr c"
    "py_hash (dget j ''location'' (PStr '''')) = Inr l"
    unfolding text_keyed_def by (meson py_hash_text)
  then show ?thesis by (simp add: job_key_def ebind_def)
qed

lemma deduplicate_jobs_returns:
  assumes "list_all text_keyed (jobs self)"
  shows "\<exists>res. deduplicate_jobs self = Inr res"
proof -
  have "\<forall>j\<in>set (jobs self). \<exists>k. job_key j = Inr k"
  proof
    fix j assume "j \<in> set (jobs self)"
    with assms have "text_keyed j" by (simp add: list_all_iff)
    then show "\<exists>k. job_key j = Inr k" by (rule job_key_text)
  qed
  from deduplicate_jobs_total[OF this] show ?thesis by blast
qed

text \<open>
  Claim C1, as the code has it. \<^verbatim>\<open>deduplicate_jobs\<close> compares the raw values of
  title, company and location (the empty string for a missing field): whenever it
  returns, no two listings of its output have the same such key, and the output is what
  \<^verbatim>\<open>self.jobs\<close> holds afterwards. It returns whenever the title, company and
  location of every listing are text or missing. The key is neither trimmed nor
  lowercased.
\<close>

theorem dedup_no_shared_key:
  "(deduplicate_jobs self = Inr (out, self') \<longrightarrow>
      distinct (map job_key out) \<and> jobs self' = out)
   \<and> (list_all text_keyed (jobs self) \<longrightarrow>
      (\<exists>res. deduplicate_jobs self = Inr res))"
proof (intro conjI impI)
  assume run: "deduplicate_jobs self = Inr (out, self')"
  note r = deduplicate_jobs_result[OF run]
  have sub: "set out \<subseteq> set (jobs self)"
    unfolding r(1) by (rule first_occ_set)
  with r(3) have "map job_key out = map (Inr \<circ> the_key) out" by (intro map_job_key) blast
  moreover have "distinct (map the_key out)" unfolding r(1) by (rule first_occ_distinct)
  ultimately show "distinct (map job_key out)"
    by (simp add: distinct_map inj_on_def)
  from r(2) show "jobs self' = out" by simp
next
  assume "list_all text_keyed (jobs self)"
  then show "\<exists>res. deduplicate_jobs self = Inr res"
    by (rule deduplicate_jobs_returns)
qed

theorem dedup_no_shared_key_witness:
  "deduplicate_jobs
     \<lparr>sources = [],
      jobs = [[''title'' \<mapsto> PStr ''ML Engineer'', ''source'' \<mapsto> PStr ''linkedin''],
              [''title'' \<mapsto> PStr ''ML Engineer'', ''source'' \<mapsto> PStr ''indeed''],
              [''title'' \<mapsto> PStr ''Data Scientist'']],
      session = NoSession\<rparr>
   = Inr ([[''title'' \<mapsto> PStr ''ML Engineer'', ''source'' \<mapsto> PStr ''linkedin''],
           [''title'' \<mapsto> PStr ''Data Scientist'']],
          \<lparr>sources = [],
           jobs = [[''title'' \<mapsto> PStr ''ML Engineer'', ''source'' \<mapsto> PStr ''linkedin''],
                   [''title'' \<mapsto> PStr ''Data Scientist'']],
           session = NoSession\<rparr>)
   \<and> distinct (map job_key
         [[''title'' \<mapsto> PStr ''ML Engineer'', ''source'' \<mapsto> PStr ''linkedin''],
          [''title'' \<mapsto> PStr ''Data Scientist'']])
   \<and> list_all text_keyed
         [[''title'' \<mapsto> PStr ''ML Engineer'', ''source'' \<mapsto> PStr ''linkedin''],
          [''title'' \<mapsto> PStr ''ML Engineer'', ''source'' \<mapsto> PStr ''indeed''],
          [''title'' \<mapsto> PStr ''Data Scientist'']]"
proof -
  have run: "deduplicate_jobs
     \<lparr>sources = [],
      jobs = [[''title'' \<mapsto> PStr ''ML Engineer'', ''source'' \<mapsto> PStr ''linkedin''],
              [''title'' \<mapsto> PStr ''ML Engineer'', ''source'' \<mapsto> PStr ''indeed''],
              [''title'' \<mapsto> PStr ''Data Scientist'']],
      session = NoSession\<rparr>
   = Inr ([[''title'' \<mapsto> PStr ''ML Engineer'', ''source'' \<mapsto> PStr ''linkedin''],
           [''title'' \<mapsto> PStr ''Data Scientist'']],
          \<lparr>sources = [],
           jobs = [[''title'' \<mapsto> PStr ''ML Engineer'', ''source'' \<mapsto> PStr ''linkedin''],
                   [''title'' \<mapsto> PStr ''Data Scientist'']],
           session = NoSession\<rparr>)"
    by (simp add: deduplicate_jobs_def job_key_def dget_def ebind_def)
  have h: "list_all text_keyed
         [[''title'' \<mapsto> PStr ''ML Engineer'', ''source'' \<mapsto> PStr ''linkedin''],
          [''title'' \<mapsto> PStr ''ML Engineer'', ''source'' \<mapsto> PStr ''indeed''],
          [''title'' \<mapsto> PStr ''Data Scientist'']]"
    by (simp add: text_keyed_def is_text_def dget_def)
  from dedup_no_shared_key[THEN conjunct1, rule_format, OF run] run h show ?thesis by simp
qed

text \<open>
  The claim as the specification words it fails: two listings whose titles differ in case
  only have the same identity key, and both are in the output.
\<close>

theorem dedup_identity_key_counterexample:
  "deduplicate_jobs
     \<lparr>sources = [],
      jobs = [[''title'' \<mapsto> PStr ''Dev''], [''title'' \<mapsto> PStr ''dev'']],
      session = NoSession\<rparr>
   = Inr ([[''title'' \<mapsto> PStr ''Dev''], [''title'' \<mapsto> PStr ''dev'']],
          \<lparr>sources = [],
           jobs = [[''title'' \<mapsto> PStr ''Dev''], [''title'' \<mapsto> PStr ''dev'']],
           session = NoSession\<rparr>)
   \<and> spec_identity_key [''title'' \<mapsto> PStr ''Dev''] = spec_identity_key [''title'' \<mapsto> PStr ''dev'']"
proof -
  have "lower ''Dev'' = lower ''dev''" by code_simp
  then have "spec_identity_key [''title'' \<mapsto> PStr ''Dev''] = spec_identity_key [''title'' \<mapsto> PStr ''dev'']"
    by (simp add: spec_identity_key_def text_field_def trim_def is_space_def)
  then show ?thesis
    by (simp add: deduplicate_jobs_def job_key_def dget_def ebind_def)
qed

text \<open>
  Claim C5, as the code has it. Whenever \<^verbatim>\<open>deduplicate_jobs\<close> returns: the output
  is the input with elements removed and the order kept; no key (raw title, company,
  location) occurs twice in it; for every key the first listing with that key is the
  same in the output as in the input; and running it again on the result changes
  nothing. It returns whenever the title, company and location of every listing are
  text or missing.
\<close>

theorem dedup_first_occurrence_idempotent:
  "(deduplicate_jobs self = Inr (out, self') \<longrightarrow>
      subseq out (jobs self)
      \<and> distinct (map job_key out)
      \<and> (\<forall>k. find (\<lambda>j. job_key j = k) out = find (\<lambda>j. job_key j = k) (jobs self))
      \<and> deduplicate_jobs self' = Inr (out, self'))
   \<and> (list_all text_keyed (jobs self) \<longrightarrow>
      (\<exists>res. deduplicate_jobs self = Inr res))"
proof (intro conjI impI)
  assume run: "deduplicate_jobs self = Inr (out, self')"
  note r = deduplicate_jobs_result[OF run]
  show "subseq out (jobs self)" unfolding r(1) by (rule first_occ_subseq)
  have sub: "set out \<subseteq> set (jobs self)" unfolding r(1) by (rule first_occ_set)
  with r(3) have ok: "\<forall>j\<in>set out. job_key j = Inr (the_key j)" by blast
  then have "map job_key out = map (Inr \<circ> the_key) out" by (rule map_job_key)
  moreover have "distinct (map the_key out)" unfolding r(1) by (rule first_occ_distinct)
  ultimately show "distinct (map job_key out)"
    by (simp add: distinct_map inj_on_def)
  have "find (\<lambda>j. job_key j = k) out = find (\<lambda>j. job_key j = k) (jobs self)" for k
    unfolding find_job_key[OF ok] find_job_key[OF r(3)]
    by (cases k) (simp_all add: r(1) first_occ_find)
  then show "\<forall>k. find (\<lambda>j. job_key j = k) out = find (\<lambda>j. job_key j = k) (jobs self)"
    by blast
  have "jobs self' = out" using r(2) by simp
  with ok have "\<forall>j\<in>set (jobs self'). \<exists>k. job_key j = Inr k" by blast
  from deduplicate_jobs_total[OF this]
  show "deduplicate_jobs self' = Inr (out, self')"
    using r(1,2) by (simp add: first_occ_idem)
next
  assume "list_all text_keyed (jobs self)"
  then show "\<exists>res. deduplicate_jobs self = Inr res"
    by (rule deduplicate_jobs_returns)
qed

theorem dedup_first_occurrence_idempotent_witness:
  "deduplicate_jobs
     \<lparr>sources = [],
      jobs = [[''company'' \<mapsto> PStr ''Acme'', ''url'' \<mapsto> PStr ''a''],
              [''company'' \<mapsto> PStr ''Initech''],
              [''company'' \<mapsto> PStr ''Acme'', ''url'' \<mapsto> PStr ''b'']],
      session = NoSession\<rparr>
   = Inr ([[''company'' \<mapsto> PStr ''Acme'', ''url'' \<mapsto> PStr ''a''],
           [''company'' \<mapsto> PStr ''Initech'']],
          \<lparr>sources = [],
           jobs = [[''company'' \<mapsto> PStr ''Acme'', ''url'' \<mapsto> PStr ''a''],
                   [''company'' \<mapsto> PStr ''Initech'']],
           session = NoSession\<rparr>)
   \<and> deduplicate_jobs
     \<lparr>sources = [],
      jobs = [[''company'' \<mapsto> PStr ''Acme'', ''url'' \<mapsto> PStr ''a''],
              [''company'' \<mapsto> PStr ''Initech'']],
      session = NoSession\<rparr>
   = Inr ([[''company'' \<mapsto> PStr ''Acme'', ''url'' \<mapsto> PStr ''a''],
           [''company'' \<mapsto> PStr ''Initech'']],
          \<lparr>sources = [],
           jobs = [[''company'' \<mapsto> PStr ''Acme'', ''url'' \<mapsto> PStr ''a''],
                   [''company'' \<mapsto> PStr ''Initech'']],
           session = NoSession\<rparr>)
   \<and> list_all text_keyed
        [[''company'' \<mapsto> PStr ''Acme'', ''url'' \<mapsto> PStr ''a''],
         [''company'' \<mapsto> PStr ''Initech''],
         [''company'' \<mapsto> PStr ''Acme'', ''url'' \<mapsto> PStr ''b'']]"
proof -
  have run: "deduplicate_jobs
     \<lparr>sources = [],
      jobs = [[''company'' \<mapsto> PStr ''Acme'', ''url'' \<mapsto> PStr ''a''],
              [''company'' \<mapsto> PStr ''Initech''],
              [''company'' \<mapsto> PStr ''Acme'', ''url'' \<mapsto> PStr ''b'']],
      session = NoSession\<rparr>
   = Inr ([[''company'' \<mapsto> PStr ''Acme'', ''url'' \<mapsto> PStr ''a''],
           [''company'' \<mapsto> PStr ''Initech'']],
          \<lparr>sources = [],
           jobs = [[''company'' \<mapsto> PStr ''Acme'', ''url'' \<mapsto> PStr ''a''],
                   [''company'' \<mapsto> PStr ''Initech'']],
           session = NoSession\<rparr>)"
    by (simp add: deduplicate_jobs_def job_key_def dget_def ebind_def)
  have h: "list_all text_keyed
        [[''company'' \<mapsto> PStr ''Acme'', ''url'' \<mapsto> PStr ''a''],
         [''company'' \<mapsto> PStr ''Initech''],
         [''company'' \<mapsto> PStr ''Acme'', ''url'' \<mapsto> PStr ''b'']]"
    by (simp add: text_keyed_def is_text_def dget_def)
  from dedup_first_occurrence_idempotent[THEN conjunct1, rule_format, OF run] run h
  show ?thesis by blast
qed

text \<open>
  With the identity key of the specification the claim fails: the second listing has the
  identity key of the first (the company differs by a trailing blank) and is not
  dropped.
\<close>

theorem dedup_later_occurrence_counterexample:
  "deduplicate_jobs
     \<lparr>sources = [],
      jobs = [[''company'' \<mapsto> PStr ''Acme''], [''company'' \<mapsto> PStr ''Acme '']],
      session = NoSession\<rparr>
   = Inr ([[''company'' \<mapsto> PStr ''Acme''], [''company'' \<mapsto> PStr ''Acme '']],
          \<lparr>sources = [],
           jobs = [[''company'' \<mapsto> PStr ''Acme''], [''company'' \<mapsto> PStr ''Acme '']],
           session = NoSession\<rparr>)
   \<and> spec_identity_key [''company'' \<mapsto> PStr ''Acme '']
     = spec_identity_key [''company'' \<mapsto> PStr ''Acme'']"
proof -
  have "trim ''Acme '' = trim ''Acme''"
    by (simp add: trim_def is_space_def)
  then have "spec_identity_key [''company'' \<mapsto> PStr ''Acme '']
     = spec_identity_key [''company'' \<mapsto> PStr ''Acme'']"
    by (simp add: spec_identity_key_def text_field_def)
  then show ?thesis
    by (simp add: deduplicate_jobs_def job_key_def dget_def ebind_def)
qed

section \<open>Filtering\<close>

lemma and_then_True: "and_then (Inr True) rest = rest"
  by (simp add: and_then_def ebind_def)

text \<open>
  Claim C7. A listing whose salary is absent (no \<^verbatim>\<open>salary\<close> key, or the value
  \<open>None\<close>) passes \<^verbatim>\<open>_check_salary\<close> under every criteria, whatever the bounds; so
  \<^verbatim>\<open>_meets_criteria\<close> decides such a listing by the seven other checks alone.
\<close>

theorem check_salary_absent_passes:
  assumes "job ''salary'' = None \<or> job ''salary'' = Some PNone"
  shows "check_salary c job = Inr True
       \<and> meets_criteria env c job =
           and_then (check_required_skills c job)
          (and_then (check_location c job)
          (and_then (check_experience c job)
          (and_then (check_job_type c job)
          (and_then (check_company c job)
          (and_then (check_posting_date env c job)
          (and_then (check_keywords c job)
          (Inr True)))))))"
proof -
  from assms have "dget job ''salary'' PNone = PNone"
    by (auto simp: dget_def)
  then have s: "check_salary c job = Inr True"
    by (simp add: check_salary_def)
  then show ?thesis
    by (simp add: meets_criteria_def and_then_True)
qed

theorem check_salary_absent_passes_witness:
  "check_salary (default_criteria\<lparr>min_salary := Some 100000, max_salary := Some 150000\<rparr>)
     [''title'' \<mapsto> PStr ''ML Engineer'', ''salary'' \<mapsto> PNone] = Inr True
   \<and> filter_jobs \<lparr>now = 0, fromisoformat = (\<lambda>s. None)\<rparr>
       \<lparr>criteria = default_criteria\<lparr>min_salary := Some 100000, max_salary := Some 150000\<rparr>,
        filtered_count = 0, total_processed = 0\<rparr>
       [[''title'' \<mapsto> PStr ''ML Engineer'', ''salary'' \<mapsto> PNone]]
     = Inr ([[''title'' \<mapsto> PStr ''ML Engineer'', ''salary'' \<mapsto> PNone]],
            [[''title'' \<mapsto> PStr ''ML Engineer'', ''salary'' \<mapsto> PNone]],
            \<lparr>criteria = default_criteria\<lparr>min_salary := Some 100000, max_salary := Some 150000\<rparr>,
             filtered_count = 1, total_processed = 1\<rparr>)"
proof -
  have a: "[''title'' \<mapsto> PStr ''ML Engineer'', ''salary'' \<mapsto> PNone] ''salary'' = None
         \<or> [''title'' \<mapsto> PStr ''ML Engineer'', ''salary'' \<mapsto> PNone] ''salary'' = Some PNone"
    by simp
  note t = check_salary_absent_passes[of "[''title'' \<mapsto> PStr ''ML Engineer'', ''salary'' \<mapsto> PNone]"
      "default_criteria\<lparr>min_salary := Some 100000, max_salary := Some 150000\<rparr>"
      "\<lparr>now = 0, fromisoformat = (\<lambda>s. None)\<rparr>", OF a]
  have rest: "meets_criteria \<lparr>now = 0, fromisoformat = (\<lambda>s. None)\<rparr> (default_criteria\<lparr>min_salary := Some 100000, max_salary := Some 150000\<rparr>)
        [''title'' \<mapsto> PStr ''ML Engineer'', ''salary'' \<mapsto> PNone] = Inr True"
    unfolding t[THEN conjunct2]
    by (simp add: and_then_def ebind_def check_required_skills_def check_location_def
        check_experience_def check_job_type_def check_company_def check_posting_date_def
        check_keywords_def default_criteria_def list_set_def dget_def lower_def)
  from t rest show ?thesis
    by (simp add: filter_jobs_def ebind_def)
qed

text \<open>
  Claim C10 fails on the code. A raw record without a salary is normalized to a listing
  whose salary is the empty string, which is not \<open>None\<close>; with a lower bound set,
  \<^verbatim>\<open>_check_salary\<close> compares the string with the bound and \<^verbatim>\<open>filter_jobs\<close> raises
  TypeError.
\<close>

theorem filter_jobs_empty_salary_raises:
  "ebind (parse_job_listing utcnow (Mapping Map.empty)) (\<lambda>job.
     filter_jobs env
       \<lparr>criteria = default_criteria\<lparr>min_salary := Some 100000\<rparr>,
        filtered_count = 0, total_processed = 0\<rparr> [job]) = Inl TypeError"
  by (simp add: parse_job_listing_def ebind_def filter_jobs_def meets_criteria_def and_then_def
      check_required_skills_def check_location_def check_salary_def default_criteria_def
      list_set_def dget_def py_lt_def)

section \<open>Scoring\<close>

lemma emap_py_lower:
  "list_all (\<lambda>x. case x of PStr s \<Rightarrow> True | _ \<Rightarrow> False) xs \<Longrightarrow>
   emap py_lower xs = Inr (map lower (concat (map (\<lambda>x. case x of PStr s \<Rightarrow> [s] | _ \<Rightarrow> []) xs)))"
  by (induction xs) (auto simp: ebind_def split: pyval.splits)

lemma lower_all_str_list: "str_list v \<Longrightarrow> lower_all v = Inr (map lower (strs_of v))"
  by (cases v) (auto simp: str_list_def lower_all_def strs_of_def ebind_def emap_py_lower)

lemma py_cmp_num:
  "as_num a = Some x \<Longrightarrow> as_num b = Some y \<Longrightarrow> py_cmp a b = Inr (num_cmp x y)"
  by (cases a; cases b) auto

lemma py_ge_num: "as_num a = Some x \<Longrightarrow> as_num b = Some y \<Longrightarrow> py_ge a b = Inr (y \<le> x)"
  by (auto simp: py_ge_def py_cmp_num ebind_def num_cmp_def)

lemma py_le_num: "as_num a = Some x \<Longrightarrow> as_num b = Some y \<Longrightarrow> py_le a b = Inr (x \<le> y)"
  by (auto simp: py_le_def py_cmp_num ebind_def num_cmp_def)

lemma truthy_num: "num_or_none v \<Longrightarrow> truthy v = is_set False v"
  by (cases v) (auto simp: num_or_none_def is_set_def)

lemma is_set_num: "is_set z v \<Longrightarrow> as_num v = Some (num_of v)"
  by (auto simp: is_set_def num_of_def split: option.splits)

lemma boost_ge:
  "num_or_none a \<Longrightarrow> num_or_none b \<Longrightarrow>
   (if truthy a \<and> truthy b then py_ge b a else Inr False)
     = Inr (is_set False a \<and> is_set False b \<and> num_of a \<le> num_of b)"
  using py_ge_num[OF is_set_num[of False b] is_set_num[of False a]]
  by (auto simp: truthy_num)

lemma boost_le:
  "num_or_none a \<Longrightarrow> num_or_none b \<Longrightarrow>
   (if truthy a \<and> truthy b then py_le a b else Inr False)
     = Inr (is_set False a \<and> is_set False b \<and> num_of a \<le> num_of b)"
  using py_le_num[OF is_set_num[of False a] is_set_num[of False b]]
  by (auto simp: truthy_num)

lemma py_lower_text: "is_text v \<Longrightarrow> py_lower v = Inr (lower (case v of PStr s \<Rightarrow> s | _ \<Rightarrow> []))"
  by (cases v) (auto simp: is_text_def)

lemma text_field_dget:
  "is_text (dget j k (PStr '''')) \<Longrightarrow> (case dget j k (PStr '''') of PStr s \<Rightarrow> s | _ \<Rightarrow> []) = text_field j k"
  by (auto simp: is_text_def dget_def text_field_def split: option.splits pyval.splits)

lemma list_ex_map: "list_ex P (map f xs) = list_ex (\<lambda>x. P (f x)) xs"
  by (induction xs) auto

lemma compute_score_typed:
  assumes "typed_listing j" and "typed_profile p"
  shows "compute_score p j = Inr (additive_score False p j)"
proof -
  from assms(1) have js: "lower_all (dget j ''skills'' (PList [])) = Inr (map lower (strs_of (dget j ''skills'' (PList []))))"
    and jl: "py_lower (dget j ''location'' (PStr '''')) = Inr (lower (text_field j ''location''))"
    and jsal: "num_or_none (dget j ''salary'' PNone)"
    and jexp: "num_or_none (dget j ''experience_years'' PNone)"
    by (simp_all add: typed_listing_def lower_all_str_list py_lower_text text_field_dget)
  from assms(2) have ps: "lower_all (dget p ''skills'' (PList [])) = Inr (map lower (strs_of (dget p ''skills'' (PList []))))"
    and pl: "lower_all (dget p ''locations'' (PList [])) = Inr (map lower (strs_of (dget p ''locations'' (PList []))))"
    and psal: "num_or_none (dget p ''min_salary'' PNone)"
    and pexp: "num_or_none (dget p ''experience_years'' PNone)"
    by (simp_all add: typed_profile_def lower_all_str_list)
  show ?thesis
    unfolding compute_score_def additive_score_def
    by (simp add: js jl ps pl ebind_def Let_def boost_ge[OF psal jsal] boost_le[OF jexp pexp] list_ex_map)
qed

text \<open>
  Claim C3, as the code has it. On a listing and a profile with the field types of the
  data model, \<^verbatim>\<open>_compute_score\<close> returns the additive score in which a number counts as
  set only when it is not zero: the salary and the experience tests are
  \<^verbatim>\<open>if a and b and ...\<close>, and 0 is false.
\<close>

theorem compute_score_additive:
  assumes "typed_listing j" and "typed_profile p"
  shows "compute_score p j = Inr (additive_score False p j)"
  using assms by (rule compute_score_typed)

theorem compute_score_additive_witness:
  "typed_listing [''skills'' \<mapsto> PList [PStr ''python'', PStr ''Go''],
      ''location'' \<mapsto> PStr ''Berlin, Germany'', ''salary'' \<mapsto> PInt 120000,
      ''experience_years'' \<mapsto> PInt 3]
   \<and> typed_profile [''skills'' \<mapsto> PList [PStr ''Python'', PStr ''SQL''],
      ''locations'' \<mapsto> PList [PStr ''Berlin''], ''min_salary'' \<mapsto> PInt 100000,
      ''experience_years'' \<mapsto> PInt 5]
   \<and> compute_score
     [''skills'' \<mapsto> PList [PStr ''Python'', PStr ''SQL''],
      ''locations'' \<mapsto> PList [PStr ''Berlin''], ''min_salary'' \<mapsto> PInt 100000,
      ''experience_years'' \<mapsto> PInt 5]
     [''skills'' \<mapsto> PList [PStr ''python'', PStr ''Go''],
      ''location'' \<mapsto> PStr ''Berlin, Germany'', ''salary'' \<mapsto> PInt 120000,
      ''experience_years'' \<mapsto> PInt 3] = Inr 25.5"
proof -
  have l: "typed_listing [''skills'' \<mapsto> PList [PStr ''python'', PStr ''Go''],
      ''location'' \<mapsto> PStr ''Berlin, Germany'', ''salary'' \<mapsto> PInt 120000,
      ''experience_years'' \<mapsto> PInt 3]"
    by (simp add: typed_listing_def dget_def str_list_def is_text_def num_or_none_def)
  have p: "typed_profile [''skills'' \<mapsto> PList [PStr ''Python'', PStr ''SQL''],
      ''locations'' \<mapsto> PList [PStr ''Berlin''], ''min_salary'' \<mapsto> PInt 100000,
      ''experience_years'' \<mapsto> PInt 5]"
    by (simp add: typed_profile_def dget_def str_list_def num_or_none_def)
  have v: "additive_score False
     [''skills'' \<mapsto> PList [PStr ''Python'', PStr ''SQL''],
      ''locations'' \<mapsto> PList [PStr ''Berlin''], ''min_salary'' \<mapsto> PInt 100000,
      ''experience_years'' \<mapsto> PInt 5]
     [''skills'' \<mapsto> PList [PStr ''python'', PStr ''Go''],
      ''location'' \<mapsto> PStr ''Berlin, Germany'', ''salary'' \<mapsto> PInt 120000,
      ''experience_years'' \<mapsto> PInt 3] = 25.5"
    by code_simp
  from compute_score_additive[OF l p] l p v show ?thesis by simp
qed

text \<open>
  The claim counts a value of 0 as set. With a minimum salary of 0 in the profile and a
  salary of 50000 in the listing the score of the claim is 7.5; the code gives 0.
\<close>

theorem compute_score_zero_counterexample:
  "compute_score [''min_salary'' \<mapsto> PInt 0] [''salary'' \<mapsto> PInt 50000] = Inr 0
   \<and> additive_score True [''min_salary'' \<mapsto> PInt 0] [''salary'' \<mapsto> PInt 50000] = 7.5"
proof
  show "compute_score [''min_salary'' \<mapsto> PInt 0] [''salary'' \<mapsto> PInt 50000] = Inr 0"
    by (simp add: compute_score_def dget_def ebind_def lower_all_def lower_def str_in_def)
  show "additive_score True [''min_salary'' \<mapsto> PInt 0] [''salary'' \<mapsto> PInt 50000] = 7.5"
    by (simp add: additive_score_def dget_def strs_of_def lower_def str_in_def text_field_def
        is_set_def num_of_def)
qed

section \<open>Ranking\<close>

lemma insert_desc_insort: "insert_desc k x ys = insort_key (\<lambda>y. - k y) x ys"
  by (induction ys) auto

lemma sorted_reverse_sort_key: "sorted_reverse k xs = sort_key (\<lambda>y. - k y) xs"
  by (induction xs) (simp_all add: sorted_reverse_def insert_desc_insort)

lemma sorted_reverse_descending: "sorted_wrt (\<ge>) (map k (sorted_reverse k xs))"
proof -
  have "sorted (map (\<lambda>y. - k y) (sort_key (\<lambda>y. - k y) xs))"
    by (rule sorted_sort_key)
  then have "sorted_wrt (\<lambda>a b. - k a \<le> - k b) (sorted_reverse k xs)"
    by (simp add: sorted_reverse_sort_key sorted_wrt_map)
  then show ?thesis
    by (simp add: sorted_wrt_map)
qed

lemma sorted_reverse_stable:
  "filter (\<lambda>y. k y = s) (sorted_reverse k xs) = filter (\<lambda>y. k y = s) xs"
  using sort_key_stable[of "\<lambda>y. - k y" "- s" xs]
  by (simp add: sorted_reverse_sort_key)

lemma sorted_reverse_mset: "mset (sorted_reverse k xs) = mset xs"
  by (simp add: sorted_reverse_sort_key)

text \<open>
  What the scoring loop leaves in the caller's listings: each one has its score under
  \<^verbatim>\<open>rank_score\<close> and is otherwise as before.
\<close>

lemma score_loop_writes:
  "score_loop p js = Inr js' \<Longrightarrow>
   list_all2 (\<lambda>j j'. \<exists>s. compute_score p j = Inr s \<and> j' = j(''rank_score'' \<mapsto> PFloat s)) js js'"
proof (induction js arbitrary: js')
  case Nil
  then show ?case by simp
next
  case (Cons j js)
  from Cons.prems obtain s rest' where s: "compute_score p j = Inr s"
    and r: "score_loop p js = Inr rest'" and e: "js' = j(''rank_score'' \<mapsto> PFloat s) # rest'"
    by (auto simp: ebind_def split: sum.splits)
  from Cons.IH[OF r] s e show ?case by auto
qed

lemma score_loop_total:
  "\<forall>j\<in>set js. \<exists>s. compute_score p j = Inr s \<Longrightarrow> \<exists>js'. score_loop p js = Inr js'"
  by (induction js) (auto simp: ebind_def)

lemma rank_score_upd: "rank_score (j(''rank_score'' \<mapsto> PFloat s)) = s"
  by (simp add: rank_score_def)

lemma rank_jobs_returns:
  assumes "typed_profile p" and "list_all typed_listing js"
  shows "\<exists>res. rank_jobs p js = Inr res"
proof -
  have "\<forall>j\<in>set js. \<exists>s. compute_score p j = Inr s"
  proof
    fix j assume "j \<in> set js"
    with assms(2) have "typed_listing j" by (simp add: list_all_iff)
    from compute_score_typed[OF this assms(1)] show "\<exists>s. compute_score p j = Inr s" by blast
  qed
  from score_loop_total[OF this] show ?thesis
    by (auto simp: rank_jobs_def ebind_def)
qed

text \<open>
  The score does not read \<^verbatim>\<open>rank_score\<close>: scoring a listing again, as the loop does
  when one dictionary is in the list twice, gives the same score.
\<close>

lemma compute_score_ignores_rank_score:
  "compute_score p (j(''rank_score'' \<mapsto> v)) = compute_score p j"
  by (simp add: compute_score_def dget_def)

text \<open>
  Claim C4. Whenever \<^verbatim>\<open>rank_jobs\<close> returns, the scores of the returned list are
  non-increasing; for every score, the listings with that score come in the returned
  list in the order they have in the input; the returned list is a rearrangement of the
  input listings; and each listing's \<^verbatim>\<open>rank_score\<close> is its computed score. It
  returns on every profile and list of listings with the field types of the data
  model.
\<close>

theorem rank_jobs_stable_descending:
  "(rank_jobs p js = Inr (js', ranked) \<longrightarrow>
      sorted_wrt (\<ge>) (map rank_score ranked)
      \<and> (\<forall>s. filter (\<lambda>j. rank_score j = s) ranked = filter (\<lambda>j. rank_score j = s) js')
      \<and> mset ranked = mset js'
      \<and> list_all2 (\<lambda>j j'. compute_score p j = Inr (rank_score j')
                         \<and> j' = j(''rank_score'' \<mapsto> PFloat (rank_score j'))) js js')
   \<and> (typed_profile p \<and> list_all typed_listing js \<longrightarrow>
      (\<exists>res. rank_jobs p js = Inr res))"
proof (intro conjI impI)
  assume run: "rank_jobs p js = Inr (js', ranked)"
  then have l: "score_loop p js = Inr js'" and r: "ranked = sorted_reverse rank_score js'"
    by (auto simp: rank_jobs_def ebind_def split: sum.splits)
  show "sorted_wrt (\<ge>) (map rank_score ranked)"
    unfolding r by (rule sorted_reverse_descending)
  show "\<forall>s. filter (\<lambda>j. rank_score j = s) ranked = filter (\<lambda>j. rank_score j = s) js'"
    unfolding r by (simp add: sorted_reverse_stable)
  show "mset ranked = mset js'"
    unfolding r by (rule sorted_reverse_mset)
  show "list_all2 (\<lambda>j j'. compute_score p j = Inr (rank_score j')
                          \<and> j' = j(''rank_score'' \<mapsto> PFloat (rank_score j'))) js js'"
    using score_loop_writes[OF l]
    by (rule list_all2_mono) (auto simp: rank_score_upd)
next
  assume "typed_profile p \<and> list_all typed_listing js"
  then have "typed_profile p" and "list_all typed_listing js" by simp_all
  then show "\<exists>res. rank_jobs p js = Inr res"
    by (rule rank_jobs_returns)
qed

theorem rank_jobs_stable_descending_witness:
  "rank_jobs [''locations'' \<mapsto> PList [PStr ''Remote'']]
     [[''title'' \<mapsto> PStr ''X'', ''location'' \<mapsto> PStr ''Remote''],
      [''title'' \<mapsto> PStr ''Y'', ''location'' \<mapsto> PStr ''remote'']]
   = Inr ([[''title'' \<mapsto> PStr ''X'', ''location'' \<mapsto> PStr ''Remote'', ''rank_score'' \<mapsto> PFloat 10],
           [''title'' \<mapsto> PStr ''Y'', ''location'' \<mapsto> PStr ''remote'', ''rank_score'' \<mapsto> PFloat 10]],
          [[''title'' \<mapsto> PStr ''X'', ''location'' \<mapsto> PStr ''Remote'', ''rank_score'' \<mapsto> PFloat 10],
           [''title'' \<mapsto> PStr ''Y'', ''location'' \<mapsto> PStr ''remote'', ''rank_score'' \<mapsto> PFloat 10]])
   \<and> sorted_wrt (\<ge>) (map rank_score
          [[''title'' \<mapsto> PStr ''X'', ''location'' \<mapsto> PStr ''Remote'', ''rank_score'' \<mapsto> PFloat 10],
           [''title'' \<mapsto> PStr ''Y'', ''location'' \<mapsto> PStr ''remote'', ''rank_score'' \<mapsto> PFloat 10]])
   \<and> typed_profile [''locations'' \<mapsto> PList [PStr ''Remote'']]
   \<and> list_all typed_listing
         [[''title'' \<mapsto> PStr ''X'', ''location'' \<mapsto> PStr ''Remote''],
          [''title'' \<mapsto> PStr ''Y'', ''location'' \<mapsto> PStr ''remote'']]"
proof -
  have lw: "lower ''Remote'' = ''remote''" "lower ''remote'' = ''remote''" by code_simp+
  have run: "rank_jobs [''locations'' \<mapsto> PList [PStr ''Remote'']]
     [[''title'' \<mapsto> PStr ''X'', ''location'' \<mapsto> PStr ''Remote''],
      [''title'' \<mapsto> PStr ''Y'', ''location'' \<mapsto> PStr ''remote'']]
   = Inr ([[''title'' \<mapsto> PStr ''X'', ''location'' \<mapsto> PStr ''Remote'', ''rank_score'' \<mapsto> PFloat 10],
           [''title'' \<mapsto> PStr ''Y'', ''location'' \<mapsto> PStr ''remote'', ''rank_score'' \<mapsto> PFloat 10]],
          [[''title'' \<mapsto> PStr ''X'', ''location'' \<mapsto> PStr ''Remote'', ''rank_score'' \<mapsto> PFloat 10],
           [''title'' \<mapsto> PStr ''Y'', ''location'' \<mapsto> PStr ''remote'', ''rank_score'' \<mapsto> PFloat 10]])"
    by (simp add: rank_jobs_def compute_score_def dget_def ebind_def lower_all_def lw str_in_def
        sorted_reverse_def rank_score_def)
  have tp: "typed_profile [''locations'' \<mapsto> PList [PStr ''Remote'']]"
    by (simp add: typed_profile_def dget_def str_list_def num_or_none_def)
  have tl: "list_all typed_listing
         [[''title'' \<mapsto> PStr ''X'', ''location'' \<mapsto> PStr ''Remote''],
          [''title'' \<mapsto> PStr ''Y'', ''location'' \<mapsto> PStr ''remote'']]"
    by (simp add: typed_listing_def dget_def str_list_def is_text_def num_or_none_def)
  from rank_jobs_stable_descending[THEN conjunct1, rule_format, OF run] run tp tl
  show ?thesis by blast
qed

text \<open>
  Claim C2, as the code has it. \<^verbatim>\<open>filter_jobs\<close> leaves every input listing as it was
  and returns some of them, in order. \<^verbatim>\<open>rank_jobs\<close> stores the score into each input
  listing under \<^verbatim>\<open>rank_score\<close> and leaves every other key of the listing as it was; the
  returned list holds these same listings.
\<close>

theorem filter_and_rank_frame:
  "(filter_jobs env self js = Inr (js1, filtered, self') \<longrightarrow> js1 = js \<and> subseq filtered js)
 \<and> (rank_jobs p js = Inr (js2, ranked) \<longrightarrow>
      list_all2 (\<lambda>j j'. (\<forall>k. k \<noteq> ''rank_score'' \<longrightarrow> j' k = j k)
                       \<and> (\<exists>s. compute_score p j = Inr s \<and> j' ''rank_score'' = Some (PFloat s))) js js2
      \<and> mset ranked = mset js2)"
proof (intro conjI impI)
  assume f: "filter_jobs env self js = Inr (js1, filtered, self')"
  then show "js1 = js"
    by (auto simp: filter_jobs_def ebind_def Let_def split: sum.splits)
  have loop: "filter_loop env c acc xs = Inr out \<Longrightarrow> \<exists>ys. out = acc @ ys \<and> subseq ys xs"
    for c acc xs out
  proof (induction xs arbitrary: acc)
    case Nil
    then show ?case by simp
  next
    case (Cons x xs)
    from Cons.prems obtain ok where ok: "meets_criteria env c x = Inr ok"
      by (cases "meets_criteria env c x") (auto simp: ebind_def)
    show ?case
    proof (cases ok)
      case True
      with Cons.prems ok have "filter_loop env c (acc @ [x]) xs = Inr out"
        by (simp add: ebind_def)
      from Cons.IH[OF this] obtain ys where "out = (acc @ [x]) @ ys" "subseq ys xs" by blast
      then have "out = acc @ (x # ys) \<and> subseq (x # ys) (x # xs)" by simp
      then show ?thesis by blast
    next
      case False
      with Cons.prems ok have "filter_loop env c acc xs = Inr out"
        by (simp add: ebind_def)
      from Cons.IH[OF this] obtain ys where "out = acc @ ys" "subseq ys xs" by blast
      then have "out = acc @ ys \<and> subseq ys (x # xs)" by (simp add: list_emb_Cons)
      then show ?thesis by blast
    qed
  qed
  from f have "filter_loop env (criteria (self\<lparr>total_processed := length js\<rparr>)) [] js = Inr filtered"
    by (auto simp: filter_jobs_def ebind_def Let_def split: sum.splits)
  from loop[OF this] show "subseq filtered js" by simp
next
  assume r: "rank_jobs p js = Inr (js2, ranked)"
  then have l: "score_loop p js = Inr js2" and s: "ranked = sorted_reverse rank_score js2"
    by (auto simp: rank_jobs_def ebind_def split: sum.splits)
  show "list_all2 (\<lambda>j j'. (\<forall>k. k \<noteq> ''rank_score'' \<longrightarrow> j' k = j k)
                       \<and> (\<exists>s. compute_score p j = Inr s \<and> j' ''rank_score'' = Some (PFloat s))) js js2"
    using score_loop_writes[OF l]
    by (rule list_all2_mono) auto
  show "mset ranked = mset js2"
    unfolding s by (rule sorted_reverse_mset)
qed

theorem filter_and_rank_frame_witness:
  "filter_jobs \<lparr>now = 0, fromisoformat = (\<lambda>s. None)\<rparr>
     \<lparr>criteria = default_criteria\<lparr>remote_only := True\<rparr>, filtered_count = 0, total_processed = 0\<rparr>
     [[''title'' \<mapsto> PStr ''ML Engineer'', ''location'' \<mapsto> PStr ''Remote'', ''skills'' \<mapsto> PList [PStr ''python'']],
      [''title'' \<mapsto> PStr ''Developer'', ''location'' \<mapsto> PStr ''New York'']]
   = Inr ([[''title'' \<mapsto> PStr ''ML Engineer'', ''location'' \<mapsto> PStr ''Remote'', ''skills'' \<mapsto> PList [PStr ''python'']],
           [''title'' \<mapsto> PStr ''Developer'', ''location'' \<mapsto> PStr ''New York'']],
          [[''title'' \<mapsto> PStr ''ML Engineer'', ''location'' \<mapsto> PStr ''Remote'', ''skills'' \<mapsto> PList [PStr ''python'']]],
          \<lparr>criteria = default_criteria\<lparr>remote_only := True\<rparr>, filtered_count = 1, total_processed = 2\<rparr>)
   \<and> subseq
        [[''title'' \<mapsto> PStr ''ML Engineer'', ''location'' \<mapsto> PStr ''Remote'', ''skills'' \<mapsto> PList [PStr ''python'']]]
        [[''title'' \<mapsto> PStr ''ML Engineer'', ''location'' \<mapsto> PStr ''Remote'', ''skills'' \<mapsto> PList [PStr ''python'']],
         [''title'' \<mapsto> PStr ''Developer'', ''location'' \<mapsto> PStr ''New York'']]
   \<and> rank_jobs [''skills'' \<mapsto> PList [PStr ''python''], ''remote_only'' \<mapsto> PBool True]
     [[''title'' \<mapsto> PStr ''ML Engineer'', ''location'' \<mapsto> PStr ''Remote'', ''skills'' \<mapsto> PList [PStr ''python'']]]
   = Inr ([[''title'' \<mapsto> PStr ''ML Engineer'', ''location'' \<mapsto> PStr ''Remote'', ''skills'' \<mapsto> PList [PStr ''python''],
            ''rank_score'' \<mapsto> PFloat 13]],
          [[''title'' \<mapsto> PStr ''ML Engineer'', ''location'' \<mapsto> PStr ''Remote'', ''skills'' \<mapsto> PList [PStr ''python''],
            ''rank_score'' \<mapsto> PFloat 13]])
   \<and> list_all2 (\<lambda>j j'. j' ''title'' = j ''title'' \<and> j' ''rank_score'' = Some (PFloat 13))
        [[''title'' \<mapsto> PStr ''ML Engineer'', ''location'' \<mapsto> PStr ''Remote'', ''skills'' \<mapsto> PList [PStr ''python'']]]
        [[''title'' \<mapsto> PStr ''ML Engineer'', ''location'' \<mapsto> PStr ''Remote'', ''skills'' \<mapsto> PList [PStr ''python''],
          ''rank_score'' \<mapsto> PFloat 13]]"
proof -
  have lw: "lower ''Remote'' = ''remote''" "lower ''New York'' = ''new york''"
    "lower ''python'' = ''python''" by code_simp+
  have nr: "\<not> sublist ''remote'' ''new york''" by code_simp
  have f: "filter_jobs \<lparr>now = 0, fromisoformat = (\<lambda>s. None)\<rparr>
     \<lparr>criteria = default_criteria\<lparr>remote_only := True\<rparr>, filtered_count = 0, total_processed = 0\<rparr>
     [[''title'' \<mapsto> PStr ''ML Engineer'', ''location'' \<mapsto> PStr ''Remote'', ''skills'' \<mapsto> PList [PStr ''python'']],
      [''title'' \<mapsto> PStr ''Developer'', ''location'' \<mapsto> PStr ''New York'']]
   = Inr ([[''title'' \<mapsto> PStr ''ML Engineer'', ''location'' \<mapsto> PStr ''Remote'', ''skills'' \<mapsto> PList [PStr ''python'']],
           [''title'' \<mapsto> PStr ''Developer'', ''location'' \<mapsto> PStr ''New York'']],
          [[''title'' \<mapsto> PStr ''ML Engineer'', ''location'' \<mapsto> PStr ''Remote'', ''skills'' \<mapsto> PList [PStr ''python'']]],
          \<lparr>criteria = default_criteria\<lparr>remote_only := True\<rparr>, filtered_count = 1, total_processed = 2\<rparr>)"
    by (simp add: filter_jobs_def meets_criteria_def and_then_def ebind_def
        check_required_skills_def check_location_def check_salary_def check_experience_def
        check_job_type_def check_company_def check_posting_date_def check_keywords_def
        default_criteria_def list_set_def dget_def lw nr str_in_def)
  have r: "rank_jobs [''skills'' \<mapsto> PList [PStr ''python''], ''remote_only'' \<mapsto> PBool True]
     [[''title'' \<mapsto> PStr ''ML Engineer'', ''location'' \<mapsto> PStr ''Remote'', ''skills'' \<mapsto> PList [PStr ''python'']]]
   = Inr ([[''title'' \<mapsto> PStr ''ML Engineer'', ''location'' \<mapsto> PStr ''Remote'', ''skills'' \<mapsto> PList [PStr ''python''],
            ''rank_score'' \<mapsto> PFloat 13]],
          [[''title'' \<mapsto> PStr ''ML Engineer'', ''location'' \<mapsto> PStr ''Remote'', ''skills'' \<mapsto> PList [PStr ''python''],
            ''rank_score'' \<mapsto> PFloat 13]])"
    by (simp add: rank_jobs_def compute_score_def dget_def ebind_def lower_all_def lw str_in_def
        sorted_reverse_def)
  note t = filter_and_rank_frame[of "\<lparr>now = 0, fromisoformat = (\<lambda>s. None)\<rparr>"
     "\<lparr>criteria = default_criteria\<lparr>remote_only := True\<rparr>, filtered_count = 0, total_processed = 0\<rparr>"
     "[[''title'' \<mapsto> PStr ''ML Engineer'', ''location'' \<mapsto> PStr ''Remote'', ''skills'' \<mapsto> PList [PStr ''python'']],
      [''title'' \<mapsto> PStr ''Developer'', ''location'' \<mapsto> PStr ''New York'']]"]
  from t[THEN conjunct1] f have s: "subseq
        [[''title'' \<mapsto> PStr ''ML Engineer'', ''location'' \<mapsto> PStr ''Remote'', ''skills'' \<mapsto> PList [PStr ''python'']]]
        [[''title'' \<mapsto> PStr ''ML Engineer'', ''location'' \<mapsto> PStr ''Remote'', ''skills'' \<mapsto> PList [PStr ''python'']],
         [''title'' \<mapsto> PStr ''Developer'', ''location'' \<mapsto> PStr ''New York'']]"
    by blast
  note t2 = filter_and_rank_frame[where p = "[''skills'' \<mapsto> PList [PStr ''python''], ''remote_only'' \<mapsto> PBool True]"
     and js = "[[''title'' \<mapsto> PStr ''ML Engineer'', ''location'' \<mapsto> PStr ''Remote'', ''skills'' \<mapsto> PList [PStr ''python'']]]"]
  from t2[THEN conjunct2] r have "list_all2 (\<lambda>j j'. (\<forall>k. k \<noteq> ''rank_score'' \<longrightarrow> j' k = j k)
        \<and> (\<exists>s. compute_score [''skills'' \<mapsto> PList [PStr ''python''], ''remote_only'' \<mapsto> PBool True] j = Inr s
             \<and> j' ''rank_score'' = Some (PFloat s)))
        [[''title'' \<mapsto> PStr ''ML Engineer'', ''location'' \<mapsto> PStr ''Remote'', ''skills'' \<mapsto> PList [PStr ''python'']]]
        [[''title'' \<mapsto> PStr ''ML Engineer'', ''location'' \<mapsto> PStr ''Remote'', ''skills'' \<mapsto> PList [PStr ''python''],
          ''rank_score'' \<mapsto> PFloat 13]]"
    by blast
  then have w: "list_all2 (\<lambda>j j'. j' ''title'' = j ''title'' \<and> j' ''rank_score'' = Some (PFloat 13))
        [[''title'' \<mapsto> PStr ''ML Engineer'', ''location'' \<mapsto> PStr ''Remote'', ''skills'' \<mapsto> PList [PStr ''python'']]]
        [[''title'' \<mapsto> PStr ''ML Engineer'', ''location'' \<mapsto> PStr ''Remote'', ''skills'' \<mapsto> PList [PStr ''python''],
          ''rank_score'' \<mapsto> PFloat 13]]"
    by simp
  from f s r w show ?thesis by blast
qed

text \<open>
  The claim fails for \<^verbatim>\<open>rank_jobs\<close>: after the call the input listing holds a key it did
  not hold before.
\<close>

theorem rank_jobs_mutates_counterexample:
  "rank_jobs Map.empty [[''title'' \<mapsto> PStr ''ML Engineer'']]
   = Inr ([[''title'' \<mapsto> PStr ''ML Engineer'', ''rank_score'' \<mapsto> PFloat 0]],
          [[''title'' \<mapsto> PStr ''ML Engineer'', ''rank_score'' \<mapsto> PFloat 0]])
   \<and> [''title'' \<mapsto> PStr ''ML Engineer'', ''rank_score'' \<mapsto> PFloat 0]
       \<noteq> [''title'' \<mapsto> PStr ''ML Engineer'']"
proof
  show "rank_jobs Map.empty [[''title'' \<mapsto> PStr ''ML Engineer'']]
   = Inr ([[''title'' \<mapsto> PStr ''ML Engineer'', ''rank_score'' \<mapsto> PFloat 0]],
          [[''title'' \<mapsto> PStr ''ML Engineer'', ''rank_score'' \<mapsto> PFloat 0]])"
    by (simp add: rank_jobs_def compute_score_def dget_def ebind_def lower_all_def lower_def
        str_in_def sorted_reverse_def)
  show "[''title'' \<mapsto> PStr ''ML Engineer'', ''rank_score'' \<mapsto> PFloat 0]
       \<noteq> [''title'' \<mapsto> PStr ''ML Engineer'']"
  proof
    assume "[''title'' \<mapsto> PStr ''ML Engineer'', ''rank_score'' \<mapsto> PFloat 0]
       = [''title'' \<mapsto> PStr ''ML Engineer'']"
    then have "[''title'' \<mapsto> PStr ''ML Engineer'', ''rank_score'' \<mapsto> PFloat 0] ''rank_score''
       = [''title'' \<mapsto> PStr ''ML Engineer''] ''rank_score''"
      by simp
    then show False by simp
  qed
qed

section \<open>Normalization\<close>

text \<open>
  Claim C6, as the code has it. On every mapping \<^verbatim>\<open>parse_job_listing\<close> returns a
  listing and does not raise. The listing has exactly ten keys. Title, company,
  location, description, url, job type, posted date and salary hold the raw value when
  the record has the key and the empty string when it has not; nothing is parsed, so no
  value is dropped as unparseable, and a missing salary or posted date is the empty
  string, not an absent value. The source defaults to \<open>unknown\<close>, and \<^verbatim>\<open>fetched_at\<close>
  is the clock reading. There is no \<^verbatim>\<open>is_remote\<close> and no \<^verbatim>\<open>experience_years\<close> key: the
  remote flag is not inferred here.
\<close>

theorem parse_job_listing_defaults:
  "\<exists>j. parse_job_listing utcnow (Mapping d) = Inr j
     \<and> j ''title'' = Some (dget d ''title'' (PStr ''''))
     \<and> j ''company'' = Some (dget d ''company'' (PStr ''''))
     \<and> j ''location'' = Some (dget d ''location'' (PStr ''''))
     \<and> j ''description'' = Some (dget d ''description'' (PStr ''''))
     \<and> j ''url'' = Some (dget d ''url'' (PStr ''''))
     \<and> j ''job_type'' = Some (dget d ''job_type'' (PStr ''''))
     \<and> j ''posted_date'' = Some (dget d ''posted_date'' (PStr ''''))
     \<and> j ''salary'' = Some (dget d ''salary'' (PStr ''''))
     \<and> j ''source'' = Some (dget d ''source'' (PStr ''unknown''))
     \<and> j ''fetched_at'' = Some (PStr utcnow)
     \<and> j ''is_remote'' = None
     \<and> j ''experience_years'' = None
     \<and> dom j = {''title'', ''company'', ''location'', ''description'', ''url'', ''posted_date'',
                 ''salary'', ''job_type'', ''source'', ''fetched_at''}"
  by (auto simp: parse_job_listing_def)

text \<open>
  The claim fails on a record that has a location containing \<open>Remote\<close> and no salary:
  the listing has no \<^verbatim>\<open>is_remote\<close> key, and its salary is the empty string.
\<close>

theorem parse_job_listing_counterexample:
  "listing_field (parse_job_listing ''2024-01-01T00:00:00''
      (Mapping [''title'' \<mapsto> PStr ''ML Engineer'', ''location'' \<mapsto> PStr ''Remote''])) ''is_remote''
     = Inr None
   \<and> listing_field (parse_job_listing ''2024-01-01T00:00:00''
      (Mapping [''title'' \<mapsto> PStr ''ML Engineer'', ''location'' \<mapsto> PStr ''Remote''])) ''salary''
     = Inr (Some (PStr ''''))"
  by (simp add: listing_field_def parse_job_listing_def ebind_def dget_def)

section \<open>Requests, retries and aggregation\<close>

lemma attempts: "[0..<max_retries] = [0, 1, 2]"
  by (simp add: max_retries_def upt_rec)










text \<open>
  Claim C8 fails on the code. \<^verbatim>\<open>fetch_jobs\<close> does not look at its keywords: with the
  empty string it sends the request of every configured source and returns what they
  answer.
\<close>

theorem fetch_jobs_empty_keywords:
  "fetch_jobs
     \<lparr>responses = (\<lambda>i a. Response 200 (JsonValue (JObject [(''elements'', JArray [])]))),
      clocks = (\<lambda>i k. ''2024-01-01T00:00:00'')\<rparr>
     \<lparr>sources = [''linkedin''], jobs = [], session = NoSession\<rparr> '''' ''''
   = ([],
      [[HttpGet ''https://api.linkedin.com/v2/jobs''
          [(''keywords'', PStr ''''), (''location'', PStr ''''), (''count'', PInt 25)]]],
      \<lparr>sources = [''linkedin''], jobs = [], session = ClosedSession\<rparr>)"
  by (simp add: fetch_jobs_def fetch_all_sources_def known_source_def fetch_source_def
      make_api_request_def attempts extract_jobs_from_response_def json_get_def json_iter_def
      ebind_def source_url_def source_params_def Let_def)

end
